theory Spec2Isabelle
  imports Complex_Main "HOL-Library.AList"
begin

section \<open>SnapTrade credential lifecycle and holdings synchronisation\<close>

text \<open>
  A shallow embedding of \<^verbatim>\<open>utils/snaptrade.ts\<close>: \<^verbatim>\<open>registerSnapTradeUser\<close>,
  \<^verbatim>\<open>getUserSecret\<close>, \<^verbatim>\<open>createSnapTradeUserLink\<close> and \<^verbatim>\<open>fetchSnapTradeHoldings\<close>.
  The functions are asynchronous glue around two collaborators, the
  \<^verbatim>\<open>broker_connections\<close> table and the SnapTrade SDK. Both are made explicit:
  the answers of the collaborators are the fields of an environment record, and
  the table, the list of remote calls made so far and the number of table
  operations made so far are the fields of a world record that every function
  receives and returns. An exception is a value \<open>Inl e\<close> of a sum type.
  Writes to the console (and the test against \<^verbatim>\<open>SUPPORTED_BROKERS\<close>, which only
  warns) are left out: they change nothing that the functions return or store.
\<close>

subsection \<open>Strings\<close>

fun starts_with :: "string \<Rightarrow> string \<Rightarrow> bool" where
  "starts_with s [] = True"
| "starts_with [] (c # cs) = False"
| "starts_with (x # xs) (c # cs) = (x = c \<and> starts_with xs cs)"

text \<open>\<^verbatim>\<open>String.prototype.includes\<close>: the second string occurs in the first.\<close>

fun str_includes :: "string \<Rightarrow> string \<Rightarrow> bool" where
  "str_includes [] sub = (sub = [])"
| "str_includes (c # cs) sub = (starts_with (c # cs) sub \<or> str_includes cs sub)"

definition digit_char :: "nat \<Rightarrow> char" where
  "digit_char d =
     (if d = 0 then CHR ''0'' else if d = 1 then CHR ''1'' else if d = 2 then CHR ''2''
      else if d = 3 then CHR ''3'' else if d = 4 then CHR ''4'' else if d = 5 then CHR ''5''
      else if d = 6 then CHR ''6'' else if d = 7 then CHR ''7'' else if d = 8 then CHR ''8''
      else CHR ''9'')"

fun dec_nat :: "nat \<Rightarrow> string" where
  "dec_nat n = (if n < 10 then [digit_char n] else dec_nat (n div 10) @ [digit_char (n mod 10)])"

declare dec_nat.simps [simp del]

text \<open>The decimal text a template literal gives for an integral number (\<^verbatim>\<open>`${Date.now()}`\<close>).\<close>

definition show_int :: "int \<Rightarrow> string" where
  "show_int i = (if i < 0 then CHR ''-'' # dec_nat (nat (- i)) else dec_nat (nat i))"

text \<open>
  \<^verbatim>\<open>toUpperCase\<close> and \<^verbatim>\<open>trim\<close> on the ASCII range (a \<open>char\<close> is a byte): the
  letters a..z are mapped to A..Z, and the white space that \<^verbatim>\<open>trim\<close> removes is
  tab, line feed, vertical tab, form feed, carriage return and space.
\<close>

definition to_upper_char :: "char \<Rightarrow> char" where
  "to_upper_char c =
     (if 97 \<le> (of_char c :: nat) \<and> (of_char c :: nat) \<le> 122
      then char_of ((of_char c :: nat) - 32) else c)"

definition toUpperCase :: "string \<Rightarrow> string" where
  "toUpperCase s = map to_upper_char s"

definition is_space :: "char \<Rightarrow> bool" where
  "is_space c = ((of_char c :: nat) \<in> {9, 10, 11, 12, 13, 32})"

definition trim :: "string \<Rightarrow> string" where
  "trim s = rev (dropWhile is_space (rev (dropWhile is_space s)))"

text \<open>A JavaScript string-or-undefined is truthy when it is present and not empty.\<close>

definition truthy :: "string option \<Rightarrow> bool" where
  "truthy s = (case s of None \<Rightarrow> False | Some x \<Rightarrow> x \<noteq> [])"

subsection \<open>The connection row and its metadata\<close>

text \<open>
  The values the code stores in and reads from \<^verbatim>\<open>broker_data\<close>. \<open>JDate t\<close> is the
  ISO-8601 text of the instant \<open>t\<close> (milliseconds since the epoch), as
  \<^verbatim>\<open>new Date().toISOString()\<close> writes it and \<^verbatim>\<open>new Date(text)\<close> reads it back;
  \<open>JStr\<close> is any other text, which \<^verbatim>\<open>new Date\<close> turns into an invalid date.
\<close>

datatype jval = JStr string | JBool bool | JDate int | JNull

text \<open>
  \<^verbatim>\<open>broker_data\<close> is a JSON object: an association list, so that the literal
  \<^verbatim>\<open>{...existing, k: v}\<close> is \<open>AList.update k v existing\<close> and a literal without
  the spread is the list of its own fields. A null \<^verbatim>\<open>broker_data\<close> is the empty
  list: the source reads it only as \<^verbatim>\<open>data.broker_data?.k\<close> or
  \<^verbatim>\<open>broker_data || {}\<close>.
\<close>

type_synonym broker_data = "(string \<times> jval) list"

record connection =
  api_key :: string
  api_secret_encrypted :: "string option"
  is_active :: bool
  broker_data :: broker_data

definition jtruthy :: "jval option \<Rightarrow> bool" where
  "jtruthy v = (case v of None \<Rightarrow> False | Some JNull \<Rightarrow> False | Some (JBool b) \<Rightarrow> b
                | Some (JStr s) \<Rightarrow> s \<noteq> [] | Some (JDate t) \<Rightarrow> True)"

text \<open>\<^verbatim>\<open>new Date(v).getTime()\<close>; \<open>None\<close> is NaN (an invalid date).\<close>

definition date_ms :: "jval option \<Rightarrow> int option" where
  "date_ms v = (case v of Some (JDate t) \<Rightarrow> Some t | Some (JBool b) \<Rightarrow> Some (if b then 1 else 0)
                | _ \<Rightarrow> None)"

subsection \<open>Errors\<close>

text \<open>
  A thrown value, with the properties the code inspects: \<^verbatim>\<open>message\<close>,
  \<^verbatim>\<open>status\<close>, \<^verbatim>\<open>response?.status\<close>, \<^verbatim>\<open>response?.data?.detail\<close>,
  \<^verbatim>\<open>JSON.stringify(response.data)\<close> where \<^verbatim>\<open>response.data\<close> is truthy,
  \<^verbatim>\<open>responseBody?.detail\<close> and \<^verbatim>\<open>responseBody?.status_code\<close>. Every thrown
  value is an instance of \<^verbatim>\<open>Error\<close>.
\<close>

record js_error =
  err_message :: string
  err_status :: "nat option"
  err_response_status :: "nat option"
  err_response_detail :: "string option"
  err_response_data :: "string option"
  err_body_detail :: "string option"
  err_body_status_code :: "nat option"

definition new_Error :: "string \<Rightarrow> js_error" where
  "new_Error msg =
     \<lparr>err_message = msg, err_status = None, err_response_status = None,
      err_response_detail = None, err_response_data = None, err_body_detail = None,
      err_body_status_code = None\<rparr>"

text \<open>\<^verbatim>\<open>error.message || "Unknown error"\<close>\<close>

definition message_or_unknown :: "js_error \<Rightarrow> string" where
  "message_or_unknown e = (if err_message e = [] then ''Unknown error'' else err_message e)"

subsection \<open>The SnapTrade SDK and the table, as an environment\<close>

record registration =
  reg_userId :: "string option"
  reg_userSecret :: "string option"

record login_request =
  lr_userId :: string
  lr_userSecret :: string
  lr_broker :: "string option"
  lr_immediateRedirect :: bool
  lr_customRedirect :: string
  lr_connectionPortalVersion :: string

record account =
  acc_id :: string
  acc_name :: "string option"
  acc_brokerage_name :: "string option"

text \<open>
  JavaScript numbers: the finite values are exact rationals (rounding and
  overflow are not modelled, and zero has no sign), with the three special
  values of IEEE 754 that a division can produce.
\<close>

datatype jsnum = Fin rat | PosInf | NegInf | NaN

text \<open>
  \<^verbatim>\<open>position.symbol\<close> is an object with optional \<^verbatim>\<open>symbol\<close> and
  \<^verbatim>\<open>description\<close>, or a plain string.
\<close>

datatype symbol_field = SymbolObject "string option" "string option" | SymbolString string

text \<open>
  A position as the SDK returns it. The numeric fields hold what
  \<^verbatim>\<open>parseFloat(field || "0")\<close> reads: \<open>None\<close> is a falsy field (absent, null,
  empty, 0), for which the source parses \<^verbatim>\<open>"0"\<close>; \<open>Some x\<close> is a truthy field
  that \<^verbatim>\<open>parseFloat\<close> reads as \<open>x\<close>.
\<close>

record position =
  pos_symbol :: "symbol_field option"
  pos_quantity :: "jsnum option"
  pos_price :: "jsnum option"
  pos_bookValue :: "jsnum option"
  pos_currency :: "string option"

text \<open>A balance; \<open>bal_amount\<close> is \<^verbatim>\<open>parseFloat(balance.amount)\<close>.\<close>

record balance =
  bal_cash :: bool
  bal_amount :: jsnum
  bal_currency :: "string option"

datatype remote_call =
    RegisterCall string
  | DeleteUserCall string
  | LoginCall login_request
  | ListAccountsCall string string
  | PositionsCall string string string
  | BalancesCall string string string

text \<open>
  The environment. \<open>sdk_initialized\<close> is \<^verbatim>\<open>snaptrade !== null\<close>. The answer of
  the register, delete, login and account-list endpoints may change from call to
  call: it is a function of the number of remote calls made before it and of the
  request. A positions or balances answer is a function of the request (user,
  secret, account). \<open>db_fails k\<close> says whether the \<open>k\<close>-th table operation
  comes back with an error; \<open>clock k\<close> is the time in milliseconds after \<open>k\<close>
  effects.
\<close>

record env =
  sdk_initialized :: bool
  register_api :: "nat \<Rightarrow> string \<Rightarrow> js_error + registration option"
  delete_api :: "nat \<Rightarrow> string \<Rightarrow> js_error option"
  login_api :: "nat \<Rightarrow> login_request \<Rightarrow> js_error + string option option"
  accounts_api :: "nat \<Rightarrow> string \<Rightarrow> string \<Rightarrow> js_error + account list option"
  positions_api :: "string \<Rightarrow> string \<Rightarrow> string \<Rightarrow> js_error + position list option"
  balances_api :: "string \<Rightarrow> string \<Rightarrow> string \<Rightarrow> js_error + balance list option"
  db_fails :: "nat \<Rightarrow> bool"
  clock :: "nat \<Rightarrow> int"

text \<open>
  The world: the rows of \<^verbatim>\<open>broker_connections\<close> with
  \<^verbatim>\<open>broker_id = "snaptrade"\<close>, by user id; the remote calls made so far, in
  order; the number of table operations made so far.
\<close>

record world =
  store :: "string \<rightharpoonup> connection"
  calls :: "remote_call list"
  db_ops :: nat

definition now :: "env \<Rightarrow> world \<Rightarrow> int" where
  "now env w = clock env (db_ops w + length (calls w))"

definition log_call :: "remote_call \<Rightarrow> world \<Rightarrow> world" where
  "log_call c w = w\<lparr>calls := calls w @ [c]\<rparr>"

subsection \<open>Table operations\<close>

text \<open>
  The Supabase client reports a failure in the \<^verbatim>\<open>error\<close> field of its answer
  and does not throw. A failed read has no data; a failed write changes nothing.
  \<^verbatim>\<open>update\<close> changes the row if there is one; \<^verbatim>\<open>upsert\<close> writes all columns.
\<close>

datatype db_result = DbError | DbData "connection option"

definition db_select :: "env \<Rightarrow> string \<Rightarrow> world \<Rightarrow> db_result" where
  "db_select env uid w = (if db_fails env (db_ops w) then DbError else DbData (store w uid))"

definition db_step :: "world \<Rightarrow> world" where
  "db_step w = w\<lparr>db_ops := Suc (db_ops w)\<rparr>"

definition db_update :: "env \<Rightarrow> string \<Rightarrow> (connection \<Rightarrow> connection) \<Rightarrow> world \<Rightarrow> world" where
  "db_update env uid f w =
     (if db_fails env (db_ops w) then db_step w
      else (case store w uid of
              None \<Rightarrow> db_step w
            | Some r \<Rightarrow> db_step (w\<lparr>store := (store w)(uid \<mapsto> f r)\<rparr>)))"

definition db_upsert :: "env \<Rightarrow> string \<Rightarrow> connection \<Rightarrow> world \<Rightarrow> world" where
  "db_upsert env uid r w =
     (if db_fails env (db_ops w) then db_step w
      else db_step (w\<lparr>store := (store w)(uid \<mapsto> r)\<rparr>))"

text \<open>\<^verbatim>\<open>data\<close> of a read whose \<^verbatim>\<open>error\<close> is not looked at.\<close>

definition data_of :: "db_result \<Rightarrow> connection option" where
  "data_of r = (case r of DbError \<Rightarrow> None | DbData d \<Rightarrow> d)"

definition secret_of :: "connection option \<Rightarrow> string option" where
  "secret_of d = (case d of None \<Rightarrow> None | Some r \<Rightarrow> api_secret_encrypted r)"

subsection \<open>registerSnapTradeUser\<close>

record snaptrade_user =
  userId :: "string option"
  userSecret :: string

definition detail_includes :: "string option \<Rightarrow> string \<Rightarrow> bool" where
  "detail_includes d s = (case d of None \<Rightarrow> False | Some t \<Rightarrow> str_includes t s)"

text \<open>The test of the \<^verbatim>\<open>catch (registerError)\<close> block for a remote conflict.\<close>

definition already_exists :: "js_error \<Rightarrow> bool" where
  "already_exists e =
     ((err_response_status e = Some 400 \<or> err_status e = Some 400) \<and>
      (detail_includes (err_response_detail e) ''User with the following userId already exist'' \<or>
       detail_includes (err_body_detail e) ''User with the following userId already exist''))"

definition modified_registration_data :: "string \<Rightarrow> string \<Rightarrow> int \<Rightarrow> broker_data" where
  "modified_registration_data uid modifiedUserId t =
     [(''registered_at'', JDate t), (''snap_trade_user_id'', JStr modifiedUserId),
      (''original_user_id'', JStr uid), (''registration_method'', JStr ''modified_id'')]"

definition fallback_registration_data :: "string \<Rightarrow> int \<Rightarrow> broker_data" where
  "fallback_registration_data uid t =
     [(''registered_at'', JDate t), (''snap_trade_user_id'', JStr uid),
      (''registration_method'', JStr ''fallback''), (''is_fake_secret'', JBool True)]"

text \<open>The last resort of the conflict branch: a fake secret, written to the row.\<close>

definition fake_secret_fallback :: "env \<Rightarrow> string \<Rightarrow> world \<Rightarrow> (js_error + snaptrade_user) \<times> world" where
  "fake_secret_fallback env uid w =
     (let fakeSecret = ''fake_secret_'' @ show_int (now env w)
      in (Inr \<lparr>userId = Some uid, userSecret = fakeSecret\<rparr>,
          db_update env uid
            (\<lambda>r. r\<lparr>api_secret_encrypted := Some fakeSecret,
                   broker_data := fallback_registration_data uid (now env w)\<rparr>) w))"

text \<open>
  The secret of a registration answer that passes the test
  \<^verbatim>\<open>response.data && response.data.userSecret\<close>; \<open>None\<close> for an answer that
  fails it and for a thrown error.
\<close>

definition registered_secret :: "js_error + registration option \<Rightarrow> string option" where
  "registered_secret resp =
     (case resp of
        Inl e \<Rightarrow> None
      | Inr None \<Rightarrow> None
      | Inr (Some d) \<Rightarrow>
          (case reg_userSecret d of None \<Rightarrow> None | Some s \<Rightarrow> if s \<noteq> [] then Some s else None))"

text \<open>
  Registration of a user with the modified id \<^verbatim>\<open>`${userId}_${Date.now()}`\<close>; an
  error of the call is caught and logged, and control falls through to the fake
  secret, as it does for an answer without a secret.
\<close>

definition modified_user_id :: "env \<Rightarrow> string \<Rightarrow> world \<Rightarrow> string" where
  "modified_user_id env uid w = uid @ ''_'' @ show_int (now env w)"

definition modified_id_registration :: "env \<Rightarrow> string \<Rightarrow> world \<Rightarrow> (js_error + snaptrade_user) \<times> world" where
  "modified_id_registration env uid w =
     (let modifiedUserId = modified_user_id env uid w;
          w1 = log_call (RegisterCall modifiedUserId) w
      in (case registered_secret (register_api env (length (calls w)) modifiedUserId) of
            Some s \<Rightarrow>
              (Inr \<lparr>userId = Some uid, userSecret = s\<rparr>,
               db_update env uid
                 (\<lambda>r. r\<lparr>api_secret_encrypted := Some s,
                        broker_data := modified_registration_data uid modifiedUserId (now env w1)\<rparr>) w1)
          | None \<Rightarrow> fake_secret_fallback env uid w1))"

text \<open>
  The body of the conflict branch: a secret of the row that is not the
  placeholder, else the modified id, else the fake secret.
\<close>

definition conflict_fallback :: "env \<Rightarrow> string \<Rightarrow> world \<Rightarrow> (js_error + snaptrade_user) \<times> world" where
  "conflict_fallback env uid w =
     (case secret_of (data_of (db_select env uid w)) of
        Some s \<Rightarrow>
          if s \<noteq> [] \<and> s \<noteq> ''pending_registration''
          then (Inr \<lparr>userId = Some uid, userSecret = s\<rparr>, db_step w)
          else modified_id_registration env uid (db_step w)
      | None \<Rightarrow> modified_id_registration env uid (db_step w))"

definition placeholder_row :: "int \<Rightarrow> connection" where
  "placeholder_row t =
     \<lparr>api_key = ''snaptrade_user'', api_secret_encrypted = Some ''pending_registration'',
      is_active = True, broker_data = [(''registration_started_at'', JDate t)]\<rparr>"

text \<open>
  The metadata of a direct registration. A property whose value is
  \<^verbatim>\<open>undefined\<close> (an answer without \<^verbatim>\<open>userId\<close>) is left out when the object
  is written as JSON.
\<close>

definition snap_trade_user_id_field :: "string option \<Rightarrow> broker_data" where
  "snap_trade_user_id_field remoteId =
     (case remoteId of None \<Rightarrow> [] | Some i \<Rightarrow> [(''snap_trade_user_id'', JStr i)])"

definition direct_registration_data :: "string option \<Rightarrow> int \<Rightarrow> broker_data" where
  "direct_registration_data remoteId t =
     [(''registered_at'', JDate t)] @ snap_trade_user_id_field remoteId
       @ [(''registration_method'', JStr ''direct'')]"

definition failed_registration_data :: "js_error \<Rightarrow> int \<Rightarrow> broker_data" where
  "failed_registration_data e t =
     [(''registration_failed_at'', JDate t), (''error_message'', JStr (message_or_unknown e))]"

text \<open>The \<^verbatim>\<open>catch (registerError)\<close> block.\<close>

definition on_register_error :: "env \<Rightarrow> string \<Rightarrow> js_error \<Rightarrow> world \<Rightarrow> (js_error + snaptrade_user) \<times> world" where
  "on_register_error env uid registerError w =
     (if already_exists registerError then conflict_fallback env uid w
      else (Inl registerError,
            db_update env uid
              (\<lambda>r. r\<lparr>is_active := False,
                     broker_data := failed_registration_data registerError (now env w)\<rparr>) w))"

text \<open>The row of the first read, which asks for \<^verbatim>\<open>is_active = true\<close>.\<close>

definition active_row :: "db_result \<Rightarrow> connection option" where
  "active_row r = (case data_of r of None \<Rightarrow> None | Some c \<Rightarrow> if is_active c then Some c else None)"

text \<open>The direct registration: placeholder row, remote call, and its outcome.\<close>

definition direct_registration :: "env \<Rightarrow> string \<Rightarrow> world \<Rightarrow> (js_error + snaptrade_user) \<times> world" where
  "direct_registration env uid w =
     (let w1 = db_upsert env uid (placeholder_row (now env w)) w;
          w2 = log_call (RegisterCall uid) w1
      in (case register_api env (length (calls w1)) uid of
            Inl registerError \<Rightarrow> on_register_error env uid registerError w2
          | Inr None \<Rightarrow>
              on_register_error env uid
                (new_Error ''Failed to register user with SnapTrade - no data returned'') w2
          | Inr (Some d) \<Rightarrow>
              (case registered_secret (Inr (Some d)) of
                 Some s \<Rightarrow>
                   (Inr \<lparr>userId = reg_userId d, userSecret = s\<rparr>,
                    db_update env uid
                      (\<lambda>r. r\<lparr>api_secret_encrypted := Some s,
                             broker_data := direct_registration_data (reg_userId d) (now env w2)\<rparr>) w2)
               | None \<Rightarrow>
                   on_register_error env uid
                     (new_Error ''Failed to register user with SnapTrade - no data returned'') w2)))"

definition registerSnapTradeUser :: "env \<Rightarrow> string \<Rightarrow> world \<Rightarrow> (js_error + snaptrade_user) \<times> world" where
  "registerSnapTradeUser env uid w =
     (if \<not> sdk_initialized env then (Inl (new_Error ''SnapTrade SDK not initialized''), w)
      else (case secret_of (active_row (db_select env uid w)) of
              Some s \<Rightarrow>
                if s \<noteq> [] then (Inr \<lparr>userId = Some uid, userSecret = s\<rparr>, db_step w)
                else direct_registration env uid (db_step w)
            | None \<Rightarrow> direct_registration env uid (db_step w)))"

subsection \<open>getUserSecret\<close>

text \<open>The test \<^verbatim>\<open>data && data.is_active && secret && secret !== "pending_registration"\<close>.\<close>

definition valid_credentials :: "connection option \<Rightarrow> string option" where
  "valid_credentials d =
     (case d of
        None \<Rightarrow> None
      | Some r \<Rightarrow>
          (case api_secret_encrypted r of
             None \<Rightarrow> None
           | Some s \<Rightarrow> if is_active r \<and> s \<noteq> [] \<and> s \<noteq> ''pending_registration'' then Some s else None))"

definition is_fake_secret :: "connection \<Rightarrow> bool" where
  "is_fake_secret r = (map_of (broker_data r) ''is_fake_secret'' = Some (JBool True))"

text \<open>
  \<^verbatim>\<open>needsRefresh\<close>: true without a truthy \<^verbatim>\<open>registered_at\<close>; otherwise the whole
  days since then, \<^verbatim>\<open>Math.floor(ms / 86400000)\<close>, are more than 7 (a comparison
  with NaN is false).
\<close>

definition needs_refresh :: "connection \<Rightarrow> int \<Rightarrow> bool" where
  "needs_refresh r t =
     (let registeredAt = map_of (broker_data r) ''registered_at''
      in if jtruthy registeredAt
         then (case date_ms registeredAt of
                 None \<Rightarrow> False
               | Some t0 \<Rightarrow> (t - t0) div (1000 * 60 * 60 * 24) > 7)
         else True)"

text \<open>
  The first block of \<^verbatim>\<open>getUserSecret\<close>: \<open>Some s\<close> when it returns the stored
  secret at once, \<open>None\<close> when control goes on to the registration.
\<close>

definition cached_secret :: "connection option \<Rightarrow> bool \<Rightarrow> int \<Rightarrow> string option" where
  "cached_secret d forceReregister t =
     (case d of
        None \<Rightarrow> None
      | Some r \<Rightarrow>
          (case valid_credentials d of
             None \<Rightarrow> None
           | Some s \<Rightarrow>
               if is_fake_secret r then (if \<not> forceReregister then Some s else None)
               else (if \<not> needs_refresh r t \<and> \<not> forceReregister then Some s else None)))"

definition emergency_row :: "string \<Rightarrow> js_error \<Rightarrow> int \<Rightarrow> connection" where
  "emergency_row fakeSecret regError t =
     \<lparr>api_key = ''snaptrade_user'', api_secret_encrypted = Some fakeSecret, is_active = True,
      broker_data =
        [(''registered_at'', JDate t), (''registration_method'', JStr ''emergency_fallback''),
         (''is_fake_secret'', JBool True), (''original_error'', JStr (message_or_unknown regError))]\<rparr>"

text \<open>The \<^verbatim>\<open>try\<close> block that registers, with its \<^verbatim>\<open>catch (regError)\<close>.\<close>

definition register_or_fallback :: "env \<Rightarrow> string \<Rightarrow> connection option \<Rightarrow> world \<Rightarrow> string \<times> world" where
  "register_or_fallback env uid d w =
     (case registerSnapTradeUser env uid w of
        (Inr registrationResult, w1) \<Rightarrow> (userSecret registrationResult, w1)
      | (Inl regError, w1) \<Rightarrow>
          (case valid_credentials d of
             Some s \<Rightarrow> (s, w1)
           | None \<Rightarrow>
               (let fakeSecret = ''emergency_fallback_'' @ show_int (now env w1)
                in (fakeSecret, db_upsert env uid (emergency_row fakeSecret regError (now env w1)) w1))))"

definition getUserSecret :: "env \<Rightarrow> string \<Rightarrow> bool \<Rightarrow> world \<Rightarrow> (js_error + string) \<times> world" where
  "getUserSecret env uid forceReregister w =
     (case db_select env uid w of
        DbError \<Rightarrow> (Inl (new_Error ''Database error when retrieving user secret''), db_step w)
      | DbData d \<Rightarrow>
          (case cached_secret d forceReregister (now env (db_step w)) of
             Some s \<Rightarrow> (Inr s, db_step w)
           | None \<Rightarrow>
               (case register_or_fallback env uid d (db_step w) of
                  (s, w1) \<Rightarrow> (Inr s, w1))))"

subsection \<open>createSnapTradeUserLink\<close>

definition special_broker :: "string \<Rightarrow> bool" where
  "special_broker b = (b = ''INTERACTIVE_BROKERS'' \<or> b = ''IBKR'' \<or> b = ''SCHWAB'')"

text \<open>
  The variable \<^verbatim>\<open>snapTradeBrokerId\<close> after the block that validates
  \<^verbatim>\<open>brokerId\<close>; \<open>None\<close> is null or undefined.
\<close>

definition snapTradeBrokerId :: "string option \<Rightarrow> string option" where
  "snapTradeBrokerId brokerId =
     (case brokerId of
        None \<Rightarrow> None
      | Some b \<Rightarrow>
          if b \<noteq> [] \<and> trim b \<noteq> [] then
            (if special_broker (toUpperCase b) then None else Some (toUpperCase b))
          else Some b)"

text \<open>The \<^verbatim>\<open>broker\<close> property of the login request: present or left out.\<close>

definition broker_param :: "string option \<Rightarrow> string option" where
  "broker_param sid =
     (case sid of
        None \<Rightarrow> None
      | Some b \<Rightarrow>
          if b \<noteq> [] \<and> trim b \<noteq> [] \<and> b \<noteq> ''IBKR'' \<and> b \<noteq> ''INTERACTIVE_BROKERS'' \<and> b \<noteq> ''SCHWAB''
          then Some b else None)"

definition login_request_of :: "string \<Rightarrow> string \<Rightarrow> string \<Rightarrow> string option \<Rightarrow> login_request" where
  "login_request_of uid secret redirectUri brokerId =
     \<lparr>lr_userId = uid, lr_userSecret = secret,
      lr_broker = broker_param (snapTradeBrokerId brokerId),
      lr_immediateRedirect = True, lr_customRedirect = redirectUri,
      lr_connectionPortalVersion = ''v4''\<rparr>"

text \<open>The \<^verbatim>\<open>broker_data\<close> written after the login link was generated.\<close>

definition connection_attempt_data :: "string option \<Rightarrow> int \<Rightarrow> broker_data" where
  "connection_attempt_data sid t =
     [(''connection_started'', JDate t),
      (''broker_id'', JStr (case sid of None \<Rightarrow> ''any'' | Some b \<Rightarrow> if b = [] then ''any'' else b))]"

definition link_update :: "string option \<Rightarrow> int \<Rightarrow> connection \<Rightarrow> connection" where
  "link_update sid t r = r\<lparr>broker_data := connection_attempt_data sid t\<rparr>"

text \<open>The inner \<^verbatim>\<open>try\<close> block: secret, login request, checks, table update.\<close>

definition link_attempt :: "env \<Rightarrow> string \<Rightarrow> string \<Rightarrow> string option \<Rightarrow> world \<Rightarrow> (js_error + string) \<times> world" where
  "link_attempt env uid redirectUri brokerId w =
     (case getUserSecret env uid False w of
        (Inl e, w1) \<Rightarrow> (Inl e, w1)
      | (Inr secret, w1) \<Rightarrow>
          (let req = login_request_of uid secret redirectUri brokerId;
               w2 = log_call (LoginCall req) w1
           in (case login_api env (length (calls w1)) req of
                 Inl e \<Rightarrow> (Inl e, w2)
               | Inr None \<Rightarrow>
                   (Inl (new_Error ''Failed to generate connection portal URL - no data returned''), w2)
               | Inr (Some None) \<Rightarrow>
                   (Inl (new_Error ''Failed to generate connection portal URL - no redirect URI''), w2)
               | Inr (Some (Some url)) \<Rightarrow>
                   if url = [] then
                     (Inl (new_Error ''Failed to generate connection portal URL - no redirect URI''), w2)
                   else
                     (Inr url,
                      db_update env uid (link_update (snapTradeBrokerId brokerId) (now env w2)) w2))))"

definition error_details :: "js_error \<Rightarrow> string" where
  "error_details e =
     (if truthy (err_response_detail e) then (case err_response_detail e of Some d \<Rightarrow> d | None \<Rightarrow> [])
      else if truthy (err_body_detail e) then (case err_body_detail e of Some d \<Rightarrow> d | None \<Rightarrow> [])
      else if truthy (err_response_data e) then (case err_response_data e of Some d \<Rightarrow> d | None \<Rightarrow> [])
      else message_or_unknown e)"

text \<open>The outer \<^verbatim>\<open>catch (error)\<close> block.\<close>

definition link_failure :: "js_error \<Rightarrow> js_error" where
  "link_failure e = new_Error (''Failed to link account: '' @ error_details e)"

definition has_status_400 :: "js_error \<Rightarrow> bool" where
  "has_status_400 e = (err_response_status e = Some 400 \<or> err_status e = Some 400)"

definition recreated_row :: "string \<Rightarrow> string option \<Rightarrow> int \<Rightarrow> connection" where
  "recreated_row s remoteId t =
     \<lparr>api_key = ''snaptrade_user'', api_secret_encrypted = Some s, is_active = True,
      broker_data = [(''registered_at'', JDate t)] @ snap_trade_user_id_field remoteId\<rparr>"

text \<open>
  Delete the remote user and register the same id again; \<open>True\<close> when a new
  secret was stored, \<open>False\<close> when a step failed (\<^verbatim>\<open>catch (recreateError)\<close>) or
  no secret came back.
\<close>

definition recreate_user :: "env \<Rightarrow> string \<Rightarrow> world \<Rightarrow> bool \<times> world" where
  "recreate_user env uid w =
     (let w1 = log_call (DeleteUserCall uid) w
      in (case delete_api env (length (calls w)) uid of
            Some e \<Rightarrow> (False, w1)
          | None \<Rightarrow>
              (let w2 = log_call (RegisterCall uid) w1
               in (case register_api env (length (calls w1)) uid of
                     Inl e \<Rightarrow> (False, w2)
                   | Inr None \<Rightarrow> (False, w2)
                   | Inr (Some d) \<Rightarrow>
                       (case registered_secret (Inr (Some d)) of
                          None \<Rightarrow> (False, w2)
                        | Some s \<Rightarrow>
                            (True, db_upsert env uid (recreated_row s (reg_userId d) (now env w2)) w2))))))"

definition registration_failure :: "js_error \<Rightarrow> js_error" where
  "registration_failure regError =
     link_failure (new_Error (''Failed to register user: '' @ message_or_unknown regError))"

text \<open>
  The function calls itself again after a registration and after a re-creation,
  with the same arguments, and nothing in it counts the calls: the first
  argument is fuel, one unit for each entry of the function, and \<open>None\<close> says
  that the fuel ran out. The promise of the inner call is returned without
  \<^verbatim>\<open>await\<close>, so the result of the inner call is the result, as it is.
\<close>

fun createSnapTradeUserLink ::
  "nat \<Rightarrow> env \<Rightarrow> string \<Rightarrow> string \<Rightarrow> string option \<Rightarrow> world \<Rightarrow> ((js_error + string) \<times> world) option" where
  "createSnapTradeUserLink 0 env uid redirectUri brokerId w = None"
| "createSnapTradeUserLink (Suc n) env uid redirectUri brokerId w =
     (if \<not> sdk_initialized env then Some (Inl (new_Error ''SnapTrade SDK not initialized''), w)
      else
        (case link_attempt env uid redirectUri brokerId w of
           (Inr url, w1) \<Rightarrow> Some (Inr url, w1)
         | (Inl secretError, w1) \<Rightarrow>
             if err_message secretError = ''User not registered with SnapTrade'' then
               (case registerSnapTradeUser env uid w1 of
                  (Inr registrationResult, w2) \<Rightarrow>
                    createSnapTradeUserLink n env uid redirectUri brokerId w2
                | (Inl regError, w2) \<Rightarrow>
                    if has_status_400 regError then
                      (case recreate_user env uid w2 of
                         (True, w3) \<Rightarrow> createSnapTradeUserLink n env uid redirectUri brokerId w3
                       | (False, w3) \<Rightarrow> Some (Inl (registration_failure regError), w3))
                    else Some (Inl (registration_failure regError), w2))
             else Some (Inl (link_failure secretError), w1)))"

subsection \<open>The updates that keep the stored metadata\<close>





subsection \<open>fetchSnapTradeHoldings\<close>

fun js_mul :: "jsnum \<Rightarrow> jsnum \<Rightarrow> jsnum" where
  "js_mul NaN y = NaN"
| "js_mul x NaN = NaN"
| "js_mul (Fin a) (Fin b) = Fin (a * b)"
| "js_mul (Fin a) PosInf = (if a = 0 then NaN else if 0 < a then PosInf else NegInf)"
| "js_mul (Fin a) NegInf = (if a = 0 then NaN else if 0 < a then NegInf else PosInf)"
| "js_mul PosInf (Fin b) = (if b = 0 then NaN else if 0 < b then PosInf else NegInf)"
| "js_mul NegInf (Fin b) = (if b = 0 then NaN else if 0 < b then NegInf else PosInf)"
| "js_mul PosInf PosInf = PosInf"
| "js_mul PosInf NegInf = NegInf"
| "js_mul NegInf PosInf = NegInf"
| "js_mul NegInf NegInf = PosInf"

fun js_sub :: "jsnum \<Rightarrow> jsnum \<Rightarrow> jsnum" where
  "js_sub NaN y = NaN"
| "js_sub x NaN = NaN"
| "js_sub (Fin a) (Fin b) = Fin (a - b)"
| "js_sub (Fin a) PosInf = NegInf"
| "js_sub (Fin a) NegInf = PosInf"
| "js_sub PosInf (Fin b) = PosInf"
| "js_sub NegInf (Fin b) = NegInf"
| "js_sub PosInf PosInf = NaN"
| "js_sub PosInf NegInf = PosInf"
| "js_sub NegInf PosInf = NegInf"
| "js_sub NegInf NegInf = NaN"

fun js_div :: "jsnum \<Rightarrow> jsnum \<Rightarrow> jsnum" where
  "js_div NaN y = NaN"
| "js_div x NaN = NaN"
| "js_div (Fin a) (Fin b) =
     (if b = 0 then (if a = 0 then NaN else if 0 < a then PosInf else NegInf) else Fin (a / b))"
| "js_div (Fin a) PosInf = Fin 0"
| "js_div (Fin a) NegInf = Fin 0"
| "js_div PosInf (Fin b) = (if 0 \<le> b then PosInf else NegInf)"
| "js_div NegInf (Fin b) = (if 0 \<le> b then NegInf else PosInf)"
| "js_div PosInf PosInf = NaN"
| "js_div PosInf NegInf = NaN"
| "js_div NegInf PosInf = NaN"
| "js_div NegInf NegInf = NaN"

text \<open>\<^verbatim>\<open>x > 0\<close>\<close>

fun js_positive :: "jsnum \<Rightarrow> bool" where
  "js_positive (Fin a) = (0 < a)"
| "js_positive PosInf = True"
| "js_positive NegInf = False"
| "js_positive NaN = False"


text \<open>\<^verbatim>\<open>parseFloat(field || "0")\<close>\<close>

definition parse_or_zero :: "jsnum option \<Rightarrow> jsnum" where
  "parse_or_zero f = (case f of None \<Rightarrow> Fin 0 | Some x \<Rightarrow> x)"

record holding =
  symbol :: symbol_field
  name :: symbol_field
  quantity :: jsnum
  pricePerShare :: jsnum
  totalValue :: jsnum
  gainLoss :: jsnum
  purchasePrice :: jsnum
  accountId :: string
  accountName :: string
  brokerName :: string
  currency :: string
  isPending :: bool
  isError :: bool
  errorMessage :: "string option"

text \<open>\<^verbatim>\<open>s || d\<close> on strings\<close>

definition or_default :: "string option \<Rightarrow> string \<Rightarrow> string" where
  "or_default s d = (case s of None \<Rightarrow> d | Some x \<Rightarrow> if x = [] then d else x)"

text \<open>\<^verbatim>\<open>position.symbol.symbol || position.symbol\<close>\<close>

definition symbol_of :: "symbol_field \<Rightarrow> symbol_field" where
  "symbol_of sf =
     (case sf of
        SymbolObject s d \<Rightarrow> (case s of Some x \<Rightarrow> if x \<noteq> [] then SymbolString x else sf | None \<Rightarrow> sf)
      | SymbolString t \<Rightarrow> sf)"

text \<open>\<^verbatim>\<open>position.symbol.description || position.symbol.symbol || position.symbol\<close>\<close>

definition name_of :: "symbol_field \<Rightarrow> symbol_field" where
  "name_of sf =
     (case sf of
        SymbolObject s d \<Rightarrow>
          (case d of
             Some x \<Rightarrow> if x \<noteq> [] then SymbolString x else symbol_of sf
           | None \<Rightarrow> symbol_of sf)
      | SymbolString t \<Rightarrow> sf)"

text \<open>The callback of \<^verbatim>\<open>positionsResponse.data.map\<close>, for a position with a symbol.\<close>

definition to_holding :: "account \<Rightarrow> position \<Rightarrow> symbol_field \<Rightarrow> holding" where
  "to_holding acc p sf =
     (let q = parse_or_zero (pos_quantity p);
          price = parse_or_zero (pos_price p);
          bookValue = parse_or_zero (pos_bookValue p);
          total = js_mul q price
      in \<lparr>symbol = symbol_of sf, name = name_of sf, quantity = q, pricePerShare = price,
          totalValue = total, gainLoss = js_sub total bookValue,
          purchasePrice = js_div bookValue q,
          accountId = acc_id acc, accountName = or_default (acc_name acc) ''Investment Account'',
          brokerName = or_default (acc_brokerage_name acc) ''SnapTrade'',
          currency = or_default (pos_currency p) ''USD'',
          isPending = False, isError = False, errorMessage = None\<rparr>)"

text \<open>
  The whole \<^verbatim>\<open>map\<close>: reading \<^verbatim>\<open>position.symbol.symbol\<close> of a position without
  \<^verbatim>\<open>symbol\<close> throws a TypeError, and then no holding of the account is kept.
\<close>

fun positions_to_holdings :: "account \<Rightarrow> position list \<Rightarrow> holding list option" where
  "positions_to_holdings acc [] = Some []"
| "positions_to_holdings acc (p # ps) =
     (case pos_symbol p of
        None \<Rightarrow> None
      | Some sf \<Rightarrow>
          (case positions_to_holdings acc ps of
             None \<Rightarrow> None
           | Some hs \<Rightarrow> Some (to_holding acc p sf # hs)))"

definition cash_holding :: "account \<Rightarrow> balance \<Rightarrow> holding" where
  "cash_holding acc b =
     \<lparr>symbol = SymbolString ''CASH'',
      name = SymbolString (''Cash ('' @ (case bal_currency b of None \<Rightarrow> ''undefined'' | Some c \<Rightarrow> c) @ '')''),
      quantity = Fin 1, pricePerShare = bal_amount b, totalValue = bal_amount b,
      gainLoss = Fin 0, purchasePrice = bal_amount b,
      accountId = acc_id acc, accountName = or_default (acc_name acc) ''Investment Account'',
      brokerName = or_default (acc_brokerage_name acc) ''SnapTrade'',
      currency = or_default (bal_currency b) ''USD'',
      isPending = False, isError = False, errorMessage = None\<rparr>"

definition cash_holdings :: "account \<Rightarrow> balance list \<Rightarrow> holding list" where
  "cash_holdings acc bs = map (cash_holding acc) (filter (\<lambda>b. bal_cash b \<and> js_positive (bal_amount b)) bs)"

definition pending_holding :: "account \<Rightarrow> holding" where
  "pending_holding acc =
     \<lparr>symbol = SymbolString ''PENDING'',
      name = SymbolString (or_default (acc_name acc) ''Account'' @ '' (Syncing...)''),
      quantity = Fin 0, pricePerShare = Fin 0, totalValue = Fin 0, gainLoss = Fin 0,
      purchasePrice = Fin 0,
      accountId = acc_id acc, accountName = or_default (acc_name acc) ''Investment Account'',
      brokerName = or_default (acc_brokerage_name acc) ''SnapTrade'',
      currency = ''USD'', isPending = True, isError = False, errorMessage = None\<rparr>"

definition error_holding :: "string \<Rightarrow> holding" where
  "error_holding msg =
     \<lparr>symbol = SymbolString ''ERROR'', name = SymbolString ''Error fetching holdings'',
      quantity = Fin 0, pricePerShare = Fin 0, totalValue = Fin 0, gainLoss = Fin 0,
      purchasePrice = Fin 0, accountId = ''error'', accountName = ''Error'',
      brokerName = ''SnapTrade'', currency = ''USD'', isPending = False, isError = True,
      errorMessage = Some msg\<rparr>"

text \<open>
  The test of \<^verbatim>\<open>catch (positionError)\<close>:
  \<^verbatim>\<open>(status || responseBody?.status_code || 0) === 425 || message?.includes("425")\<close>.
\<close>

definition too_early :: "js_error \<Rightarrow> bool" where
  "too_early e =
     ((case err_status e of
         Some s \<Rightarrow> if s \<noteq> 0 then s = 425 else err_body_status_code e = Some 425
       | None \<Rightarrow> err_body_status_code e = Some 425)
      \<or> str_includes (err_message e) ''425'')"

text \<open>What the balances block adds for one account.\<close>

definition balance_holdings :: "env \<Rightarrow> string \<Rightarrow> string \<Rightarrow> account \<Rightarrow> holding list" where
  "balance_holdings env uid secret acc =
     (case balances_api env uid secret (acc_id acc) of
        Inl balanceError \<Rightarrow> []
      | Inr None \<Rightarrow> []
      | Inr (Some bs) \<Rightarrow> cash_holdings acc bs)"

text \<open>
  One turn of the loop over \<^verbatim>\<open>accountsToProcess\<close>: the holdings it adds and
  the remote calls it makes.
\<close>

definition account_holdings :: "env \<Rightarrow> string \<Rightarrow> string \<Rightarrow> account \<Rightarrow> holding list" where
  "account_holdings env uid secret acc =
     (case positions_api env uid secret (acc_id acc) of
        Inl positionError \<Rightarrow> if too_early positionError then [pending_holding acc] else []
      | Inr None \<Rightarrow> balance_holdings env uid secret acc
      | Inr (Some ps) \<Rightarrow>
          (case positions_to_holdings acc ps of
             None \<Rightarrow> []
           | Some hs \<Rightarrow> hs @ balance_holdings env uid secret acc))"

definition account_calls :: "env \<Rightarrow> string \<Rightarrow> string \<Rightarrow> account \<Rightarrow> remote_call list" where
  "account_calls env uid secret acc =
     (case positions_api env uid secret (acc_id acc) of
        Inl positionError \<Rightarrow> [PositionsCall uid secret (acc_id acc)]
      | Inr None \<Rightarrow> [PositionsCall uid secret (acc_id acc), BalancesCall uid secret (acc_id acc)]
      | Inr (Some ps) \<Rightarrow>
          (case positions_to_holdings acc ps of
             None \<Rightarrow> [PositionsCall uid secret (acc_id acc)]
           | Some hs \<Rightarrow> [PositionsCall uid secret (acc_id acc), BalancesCall uid secret (acc_id acc)]))"

fun process_accounts ::
  "env \<Rightarrow> string \<Rightarrow> string \<Rightarrow> account list \<Rightarrow> holding list \<times> world \<Rightarrow> holding list \<times> world" where
  "process_accounts env uid secret [] (holdings, w) = (holdings, w)"
| "process_accounts env uid secret (acc # accs) (holdings, w) =
     process_accounts env uid secret accs
       (holdings @ account_holdings env uid secret acc,
        w\<lparr>calls := calls w @ account_calls env uid secret acc\<rparr>)"

text \<open>\<^verbatim>\<open>accountId ? data.filter((acc) => acc.id === accountId) : data\<close>\<close>

definition accountsToProcess :: "string option \<Rightarrow> account list \<Rightarrow> account list" where
  "accountsToProcess accountFilter accs =
     (case accountFilter of
        None \<Rightarrow> accs
      | Some a \<Rightarrow> if a = [] then accs else filter (\<lambda>acc. acc_id acc = a) accs)"

text \<open>The \<^verbatim>\<open>try\<close> block of \<^verbatim>\<open>fetchSnapTradeHoldings\<close>.\<close>

definition fetch_holdings_body ::
  "env \<Rightarrow> string \<Rightarrow> string option \<Rightarrow> world \<Rightarrow> (js_error + holding list) \<times> world" where
  "fetch_holdings_body env uid accountFilter w =
     (case getUserSecret env uid False w of
        (Inl e, w1) \<Rightarrow> (Inl e, w1)
      | (Inr secret, w1) \<Rightarrow>
          (let w2 = log_call (ListAccountsCall uid secret) w1
           in (case accounts_api env (length (calls w1)) uid secret of
                 Inl e \<Rightarrow> (Inl e, w2)
               | Inr None \<Rightarrow> (Inl (new_Error ''Failed to fetch accounts''), w2)
               | Inr (Some accs) \<Rightarrow>
                   (case process_accounts env uid secret (accountsToProcess accountFilter accs) ([], w2) of
                      (holdings, w3) \<Rightarrow> (Inr holdings, w3)))))"

definition fetchSnapTradeHoldings ::
  "env \<Rightarrow> string \<Rightarrow> string option \<Rightarrow> world \<Rightarrow> (js_error + holding list) \<times> world" where
  "fetchSnapTradeHoldings env uid accountFilter w =
     (if \<not> sdk_initialized env then (Inl (new_Error ''SnapTrade SDK not initialized''), w)
      else (case fetch_holdings_body env uid accountFilter w of
              (Inr holdings, w1) \<Rightarrow> (Inr holdings, w1)
            | (Inl e, w1) \<Rightarrow> (Inr [error_holding (err_message e)], w1)))"

subsection \<open>Worlds and rows that the properties speak of\<close>

text \<open>
  After the first read found no active row with a secret: the placeholder
  upsert and the first remote registration call.
\<close>

definition after_first_attempt :: "env \<Rightarrow> string \<Rightarrow> world \<Rightarrow> world" where
  "after_first_attempt env uid w =
     log_call (RegisterCall uid) (db_upsert env uid (placeholder_row (now env (db_step w))) (db_step w))"

text \<open>The row of a user is active and holds a truthy secret.\<close>

definition has_active_secret :: "world \<Rightarrow> string \<Rightarrow> bool" where
  "has_active_secret w uid =
     (case store w uid of None \<Rightarrow> False | Some r \<Rightarrow> is_active r \<and> truthy (api_secret_encrypted r))"

definition is_login_call :: "remote_call \<Rightarrow> bool" where
  "is_login_call c = (case c of LoginCall r \<Rightarrow> True | _ \<Rightarrow> False)"

text \<open>The number of login calls in the log of a finished run; 0 for a run out of fuel.\<close>

definition login_calls :: "((js_error + string) \<times> world) option \<Rightarrow> nat" where
  "login_calls run = (case run of None \<Rightarrow> 0 | Some (r, w) \<Rightarrow> length (filter is_login_call (calls w)))"

subsection \<open>Example inputs\<close>

definition empty_world :: world where
  "empty_world = \<lparr>store = Map.empty, calls = [], db_ops = 0\<rparr>"

text \<open>A remote side and a table that always answer; the clock stands at 1000 ms.\<close>

definition healthy_env :: env where
  "healthy_env =
     \<lparr>sdk_initialized = True,
      register_api = (\<lambda>k u. Inr (Some \<lparr>reg_userId = Some u, reg_userSecret = Some ''secret-1''\<rparr>)),
      delete_api = (\<lambda>k u. None),
      login_api = (\<lambda>k r. Inr (Some (Some ''https://portal/login''))),
      accounts_api = (\<lambda>k u s. Inr (Some [])),
      positions_api = (\<lambda>u s a. Inr (Some [])),
      balances_api = (\<lambda>u s a. Inr (Some [])),
      db_fails = (\<lambda>k. False),
      clock = (\<lambda>k. 1000)\<rparr>"

text \<open>A row with a real secret, registered at time 0, and a world that holds it for \<open>u1\<close>.\<close>

definition fresh_row :: connection where
  "fresh_row =
     \<lparr>api_key = ''snaptrade_user'', api_secret_encrypted = Some ''real-secret'', is_active = True,
      broker_data = [(''registered_at'', JDate 0), (''registration_method'', JStr ''direct'')]\<rparr>"

definition linked_world :: world where
  "linked_world = \<lparr>store = [''u1'' \<mapsto> fresh_row], calls = [], db_ops = 0\<rparr>"

text \<open>The same row after a login link was generated: the metadata has no \<open>registered_at\<close>.\<close>

definition untimed_row :: connection where
  "untimed_row = link_update None 500 fresh_row"

text \<open>A row left with the placeholder by an unfinished registration.\<close>

definition placeholder_world :: world where
  "placeholder_world = \<lparr>store = [''u1'' \<mapsto> placeholder_row 0], calls = [], db_ops = 0\<rparr>"


definition unreachable_table_env :: env where
  "unreachable_table_env = healthy_env\<lparr>db_fails := (\<lambda>k. True)\<rparr>"

definition uninitialized_env :: env where
  "uninitialized_env = healthy_env\<lparr>sdk_initialized := False\<rparr>"

definition conflict_error :: js_error where
  "conflict_error =
     \<lparr>err_message = ''Request failed with status code 400'', err_status = None,
      err_response_status = Some 400,
      err_response_detail = Some ''User with the following userId already exist: u1'',
      err_response_data = None, err_body_detail = None, err_body_status_code = None\<rparr>"

text \<open>The remote side knows \<open>u1\<close> already and accepts every other id.\<close>

definition conflict_env :: env where
  "conflict_env =
     healthy_env\<lparr>register_api :=
       (\<lambda>k u. if u = ''u1'' then Inl conflict_error
              else Inr (Some \<lparr>reg_userId = Some u, reg_userSecret = Some ''secret-2''\<rparr>))\<rparr>"

text \<open>The login endpoint answers "not registered": always, and for the calls before the fourth.\<close>

definition never_registered_env :: env where
  "never_registered_env =
     healthy_env\<lparr>login_api := (\<lambda>k r. Inl (new_Error ''User not registered with SnapTrade''))\<rparr>"

definition twice_unregistered_env :: env where
  "twice_unregistered_env =
     healthy_env\<lparr>login_api :=
       (\<lambda>k r. if k < 3 then Inl (new_Error ''User not registered with SnapTrade'')
              else Inr (Some (Some ''https://portal/login'')))\<rparr>"

definition accounts_down_env :: env where
  "accounts_down_env =
     healthy_env\<lparr>accounts_api := (\<lambda>k u s. Inl (new_Error ''Request failed with status code 500''))\<rparr>"

definition example_account :: account where
  "example_account = \<lparr>acc_id = ''a1'', acc_name = Some ''Main'', acc_brokerage_name = None\<rparr>"

definition second_account :: account where
  "second_account = \<lparr>acc_id = ''a2'', acc_name = None, acc_brokerage_name = Some ''Questrade''\<rparr>"


definition apple_position :: position where
  "apple_position =
     \<lparr>pos_symbol = Some (SymbolObject (Some ''AAPL'') (Some ''Apple Inc.'')), pos_quantity = Some (Fin 2),
      pos_price = Some (Fin 10), pos_bookValue = Some (Fin 15), pos_currency = Some ''USD''\<rparr>"

definition too_early_error :: js_error where
  "too_early_error =
     \<lparr>err_message = ''Request failed'', err_status = Some 425, err_response_status = None,
      err_response_detail = None, err_response_data = None, err_body_detail = None,
      err_body_status_code = None\<rparr>"

text \<open>Two accounts: the first is still syncing, the second holds one position.\<close>

definition two_accounts_env :: env where
  "two_accounts_env =
     healthy_env\<lparr>accounts_api := (\<lambda>k u s. Inr (Some [example_account, second_account])),
       positions_api := (\<lambda>u s a. if a = ''a1'' then Inl too_early_error else Inr (Some [apple_position]))\<rparr>"

section \<open>Properties\<close>

subsection \<open>Effects of the table operations and of the call log\<close>

lemma db_step_fields [simp]:
  "calls (db_step w) = calls w" "db_ops (db_step w) = Suc (db_ops w)" "store (db_step w) = store w"
  by (simp_all add: db_step_def)

lemma log_call_fields [simp]:
  "calls (log_call c w) = calls w @ [c]" "db_ops (log_call c w) = db_ops w"
  "store (log_call c w) = store w"
  by (simp_all add: log_call_def)

lemma db_update_fields [simp]:
  "calls (db_update env uid f w) = calls w" "db_ops (db_update env uid f w) = Suc (db_ops w)"
  by (simp_all add: db_update_def split: option.splits)

lemma db_upsert_fields [simp]:
  "calls (db_upsert env uid r w) = calls w" "db_ops (db_upsert env uid r w) = Suc (db_ops w)"
  by (simp_all add: db_upsert_def)

lemma store_db_update:
  "store (db_update env uid f w) uid =
     (if db_fails env (db_ops w) then store w uid else map_option f (store w uid))"
  by (simp add: db_update_def split: option.splits)

subsection \<open>Every secret that is returned is a non-empty string\<close>

lemma registered_secret_nonempty: "registered_secret resp = Some s \<Longrightarrow> s \<noteq> []"
  by (auto simp: registered_secret_def split: sum.splits option.splits if_splits)

lemma fake_secret_fallback_eq:
  "fake_secret_fallback env uid w =
     (Inr \<lparr>userId = Some uid, userSecret = ''fake_secret_'' @ show_int (now env w)\<rparr>,
      db_update env uid
        (\<lambda>r. r\<lparr>api_secret_encrypted := Some (''fake_secret_'' @ show_int (now env w)),
               broker_data := fallback_registration_data uid (now env w)\<rparr>) w)"
  by (simp add: fake_secret_fallback_def Let_def)

lemma modified_id_registration_secret:
  "modified_id_registration env uid w = (r, w') \<Longrightarrow>
     \<exists>res. r = Inr res \<and> userId res = Some uid \<and> userSecret res \<noteq> []"
  by (auto simp: modified_id_registration_def Let_def fake_secret_fallback_eq
      split: option.splits dest: registered_secret_nonempty)

lemma conflict_fallback_secret:
  "conflict_fallback env uid w = (r, w') \<Longrightarrow>
     \<exists>res. r = Inr res \<and> userId res = Some uid \<and> userSecret res \<noteq> []"
  by (auto simp: conflict_fallback_def split: option.splits if_splits
      dest: modified_id_registration_secret)

lemma on_register_error_secret:
  "on_register_error env uid e w = (Inr res, w') \<Longrightarrow> userSecret res \<noteq> []"
  by (auto simp: on_register_error_def split: if_splits dest: conflict_fallback_secret)

lemma direct_registration_secret:
  "direct_registration env uid w = (Inr res, w') \<Longrightarrow> userSecret res \<noteq> []"
  by (auto simp: direct_registration_def Let_def split: sum.splits option.splits
      dest: on_register_error_secret registered_secret_nonempty)

lemma registerSnapTradeUser_secret:
  "registerSnapTradeUser env uid w = (Inr res, w') \<Longrightarrow> userSecret res \<noteq> []"
  by (auto simp: registerSnapTradeUser_def split: option.splits if_splits
      dest: direct_registration_secret)

lemma valid_credentials_nonempty: "valid_credentials d = Some s \<Longrightarrow> s \<noteq> []"
  by (auto simp: valid_credentials_def split: option.splits if_splits)

lemma cached_secret_nonempty: "cached_secret d f t = Some s \<Longrightarrow> s \<noteq> []"
  by (auto simp: cached_secret_def split: option.splits if_splits dest: valid_credentials_nonempty)

lemma register_or_fallback_nonempty:
  "register_or_fallback env uid d w = (s, w') \<Longrightarrow> s \<noteq> []"
  by (auto simp: register_or_fallback_def Let_def split: prod.splits sum.splits option.splits
      dest: registerSnapTradeUser_secret valid_credentials_nonempty)

lemma getUserSecret_returns:
  "\<not> db_fails env (db_ops w) \<Longrightarrow> \<exists>s w1. getUserSecret env uid f w = (Inr s, w1)"
  by (auto simp: getUserSecret_def db_select_def split: option.splits prod.splits)

text \<open>
  C1, as the code has it. For every user id and \<^verbatim>\<open>forceReregister\<close> flag:
  when the first read of the table succeeds, \<^verbatim>\<open>getUserSecret\<close> does not
  throw and returns a non-empty string, whatever the registration, the remote
  side and the later table operations do; when that read comes back with an
  error, it throws \<^verbatim>\<open>Error("Database error when retrieving user secret")\<close>.
\<close>

theorem getUserSecret_returns_secret:
  "if db_fails env (db_ops w)
   then getUserSecret env uid forceReregister w
          = (Inl (new_Error ''Database error when retrieving user secret''), db_step w)
   else (\<exists>s w'. getUserSecret env uid forceReregister w = (Inr s, w') \<and> s \<noteq> [])"
  by (auto simp: getUserSecret_def db_select_def split: option.splits prod.splits
      dest: cached_secret_nonempty register_or_fallback_nonempty)

theorem getUserSecret_returns_secret_witness:
  "\<not> db_fails conflict_env (db_ops empty_world)
   \<and> (\<exists>s w'. getUserSecret conflict_env ''u1'' False empty_world = (Inr s, w') \<and> s \<noteq> [])"
proof -
  have h: "\<not> db_fails conflict_env (db_ops empty_world)" by code_simp
  with getUserSecret_returns_secret [of conflict_env empty_world "''u1''" False]
  show ?thesis by simp
qed

text \<open>
  The claim as the specification states it fails where it says "including when
  the credential-store read itself fails": with a table that cannot be read the
  function throws.
\<close>

theorem getUserSecret_read_error_counterexample:
  "fst (getUserSecret unreachable_table_env ''u1'' False empty_world)
     = Inl (new_Error ''Database error when retrieving user secret'')"
  by code_simp

subsection \<open>The stored secret is reused\<close>

lemma needs_refresh_cases:
  "needs_refresh r t =
     (case map_of (broker_data r) ''registered_at'' of
        None \<Rightarrow> True
      | Some JNull \<Rightarrow> True
      | Some (JStr x) \<Rightarrow> x = []
      | Some (JBool b) \<Rightarrow> (if b then 8 * 86400000 \<le> t - 1 else True)
      | Some (JDate t0) \<Rightarrow> 8 * 86400000 \<le> t - t0)"
proof -
  have d: "(7 < x div 86400000) = (691200000 \<le> x)" for x :: int
  proof -
    define q where "q = x div 86400000"
    define m where "m = x mod 86400000"
    have "x = 86400000 * q + m" by (simp add: q_def m_def)
    moreover have "0 \<le> m" "m < 86400000" by (simp_all add: m_def)
    ultimately show ?thesis unfolding q_def [symmetric] by linarith
  qed
  show ?thesis
    by (simp add: needs_refresh_def jtruthy_def date_ms_def Let_def d split: option.splits jval.splits)
qed

lemma register_short_circuit:
  assumes "sdk_initialized env" "\<not> db_fails env (db_ops w)" "store w uid = Some r" "is_active r"
    "api_secret_encrypted r = Some s" "s \<noteq> []"
  shows "registerSnapTradeUser env uid w = (Inr \<lparr>userId = Some uid, userSecret = s\<rparr>, db_step w)"
  using assms
  by (simp add: registerSnapTradeUser_def db_select_def active_row_def data_of_def secret_of_def)

text \<open>
  C5, as the code has it. For a stored connection that is active with a
  non-empty secret that is not the placeholder, \<^verbatim>\<open>getUserSecret\<close> returns the
  stored secret at once, without calling \<^verbatim>\<open>registerSnapTradeUser\<close>, unless: the
  secret is a fallback (\<^verbatim>\<open>is_fake_secret\<close>) and \<^verbatim>\<open>forceReregister\<close> is set; or the
  secret is real and \<^verbatim>\<open>forceReregister\<close> is set or a refresh is needed. A refresh
  is needed when \<^verbatim>\<open>registered_at\<close> is missing or falsy, or when the whole days
  since \<^verbatim>\<open>registered_at\<close> are more than 7, that is when the age is at least 8
  days. In those cases it calls \<^verbatim>\<open>registerSnapTradeUser\<close>, which returns the
  secret of the same active row: as long as the second read of the table
  succeeds, the result is the stored secret, no remote call is made and no row
  changes, whatever the flag and the age.
\<close>

theorem getUserSecret_reuse_decision:
  assumes "\<not> db_fails env (db_ops w)" "store w uid = Some r" "is_active r"
    "api_secret_encrypted r = Some s" "s \<noteq> []" "s \<noteq> ''pending_registration''"
  shows "getUserSecret env uid forceReregister w =
           (if (if is_fake_secret r then forceReregister
                else forceReregister \<or> needs_refresh r (now env (db_step w)))
            then (case register_or_fallback env uid (Some r) (db_step w) of (s', w') \<Rightarrow> (Inr s', w'))
            else (Inr s, db_step w))
         \<and> needs_refresh r t =
             (case map_of (broker_data r) ''registered_at'' of
                None \<Rightarrow> True
              | Some JNull \<Rightarrow> True
              | Some (JStr x) \<Rightarrow> x = []
              | Some (JBool b) \<Rightarrow> (if b then 8 * 86400000 \<le> t - 1 else True)
              | Some (JDate t0) \<Rightarrow> 8 * 86400000 \<le> t - t0)
         \<and> (\<not> db_fails env (Suc (db_ops w)) \<longrightarrow>
              fst (getUserSecret env uid forceReregister w) = Inr s
              \<and> calls (snd (getUserSecret env uid forceReregister w)) = calls w
              \<and> store (snd (getUserSecret env uid forceReregister w)) = store w)"
proof -
  have v: "valid_credentials (Some r) = Some s"
    using assms by (simp add: valid_credentials_def)
  have sel: "db_select env uid w = DbData (Some r)"
    using assms by (simp add: db_select_def)
  have g: "getUserSecret env uid forceReregister w =
           (if (if is_fake_secret r then forceReregister
                else forceReregister \<or> needs_refresh r (now env (db_step w)))
            then (case register_or_fallback env uid (Some r) (db_step w) of (s', w') \<Rightarrow> (Inr s', w'))
            else (Inr s, db_step w))"
    by (simp add: getUserSecret_def sel cached_secret_def v)
  have rf: "register_or_fallback env uid (Some r) (db_step w)
              = (s, if sdk_initialized env then db_step (db_step w) else db_step w)"
    if "\<not> db_fails env (Suc (db_ops w))"
  proof (cases "sdk_initialized env")
    case True
    have "registerSnapTradeUser env uid (db_step w)
            = (Inr \<lparr>userId = Some uid, userSecret = s\<rparr>, db_step (db_step w))"
      using True that assms by (intro register_short_circuit) simp_all
    then show ?thesis using True by (simp add: register_or_fallback_def)
  next
    case False
    then show ?thesis by (simp add: register_or_fallback_def registerSnapTradeUser_def v)
  qed
  show ?thesis
    apply (intro conjI)
      apply (rule g)
     apply (rule needs_refresh_cases)
    apply (simp add: g rf)
    done
qed

theorem getUserSecret_reuse_decision_witness:
  "\<not> db_fails healthy_env (db_ops linked_world) \<and> store linked_world ''u1'' = Some fresh_row
   \<and> is_active fresh_row \<and> api_secret_encrypted fresh_row = Some ''real-secret''
   \<and> \<not> db_fails healthy_env (Suc (db_ops linked_world))
   \<and> fst (getUserSecret healthy_env ''u1'' True linked_world) = Inr ''real-secret''
   \<and> calls (snd (getUserSecret healthy_env ''u1'' True linked_world)) = calls linked_world"
proof -
  have h1: "\<not> db_fails healthy_env (db_ops linked_world)" by code_simp
  have h2: "store linked_world ''u1'' = Some fresh_row" by (simp add: linked_world_def)
  have h3: "is_active fresh_row" by code_simp
  have h4: "api_secret_encrypted fresh_row = Some ''real-secret''" by code_simp
  have h5: "''real-secret'' \<noteq> []" and h6: "''real-secret'' \<noteq> ''pending_registration''" by simp_all
  have h7: "\<not> db_fails healthy_env (Suc (db_ops linked_world))" by code_simp
  from getUserSecret_reuse_decision [OF h1 h2 h3 h4 h5 h6, of True 0] h7
  have "fst (getUserSecret healthy_env ''u1'' True linked_world) = Inr ''real-secret''
      \<and> calls (snd (getUserSecret healthy_env ''u1'' True linked_world)) = calls linked_world"
    by blast
  with h1 h2 h3 h4 h7 show ?thesis by blast
qed

text \<open>
  The claim as the specification states it fails on each reading of
  "re-registered". A real secret whose row has no \<^verbatim>\<open>registered_at\<close> is not
  returned at once although \<^verbatim>\<open>forceReregister\<close> is not set; a real secret that is
  seven and a half days old is returned at once; and with \<^verbatim>\<open>forceReregister\<close>
  set the stored real secret comes back without any remote call.
\<close>

theorem getUserSecret_reuse_counterexample:
  "valid_credentials (Some untimed_row) = Some ''real-secret'' \<and> \<not> is_fake_secret untimed_row
   \<and> cached_secret (Some untimed_row) False 1000 = None
   \<and> \<not> is_fake_secret fresh_row
   \<and> cached_secret (Some fresh_row) False 648000000 = Some ''real-secret''
   \<and> fst (getUserSecret healthy_env ''u1'' True linked_world) = Inr ''real-secret''
   \<and> calls (snd (getUserSecret healthy_env ''u1'' True linked_world)) = []"
  by code_simp

subsection \<open>The short circuit of registerSnapTradeUser\<close>

text \<open>
  C4. The first test of \<^verbatim>\<open>registerSnapTradeUser\<close> looks for an active row with
  a truthy secret and does not compare the secret with the placeholder, as the
  conflict branch and \<^verbatim>\<open>getUserSecret\<close> do: for a row that an unfinished
  registration left active with \<^verbatim>\<open>"pending_registration"\<close>, the function returns
  the placeholder as the user secret and makes no remote call, and
  \<^verbatim>\<open>getUserSecret\<close> hands the placeholder on.
\<close>

theorem register_returns_placeholder:
  "fst (registerSnapTradeUser healthy_env ''u1'' placeholder_world)
     = Inr \<lparr>userId = Some ''u1'', userSecret = ''pending_registration''\<rparr>
   \<and> calls (snd (registerSnapTradeUser healthy_env ''u1'' placeholder_world)) = []
   \<and> fst (getUserSecret healthy_env ''u1'' False placeholder_world) = Inr ''pending_registration''
   \<and> calls (snd (getUserSecret healthy_env ''u1'' False placeholder_world)) = []"
  by code_simp

subsection \<open>The fallback chain of a registration conflict\<close>

lemma register_conflict:
  assumes "sdk_initialized env" "\<not> truthy (secret_of (active_row (db_select env uid w)))"
    "register_api env (length (calls w)) uid = Inl e" "already_exists e"
  shows "registerSnapTradeUser env uid w = conflict_fallback env uid (after_first_attempt env uid w)"
  using assms
  by (auto simp: registerSnapTradeUser_def truthy_def direct_registration_def Let_def
      on_register_error_def after_first_attempt_def split: option.splits)

text \<open>
  C2. Let the first read find no active row with a secret and let the remote
  registration of \<open>uid\<close> fail with the conflict "user already exists". Then
  \<^verbatim>\<open>registerSnapTradeUser\<close> returns \<open>uid\<close> with a non-empty secret after at most
  two remote calls, and it goes through the chain in this order. (a) If the row
  read now holds a truthy secret that is not the placeholder, that secret is
  returned and no further remote call is made. (b) Otherwise the id
  \<open>uid_<time>\<close> is registered; if the answer has a secret, it is returned, and
  the row of \<open>uid\<close> (if there is one and the update succeeds) gets this secret
  and metadata with \<open>original_user_id = uid\<close>, \<open>snap_trade_user_id\<close> the
  modified id and \<open>registration_method = "modified_id"\<close>. (c) Otherwise the
  secret is \<open>fake_secret_<time>\<close>, and the row gets it with
  \<open>is_fake_secret = true\<close> and \<open>registration_method = "fallback"\<close>. The row
  is there whenever the placeholder upsert before the remote call succeeded.
\<close>

theorem register_conflict_fallback_chain:
  assumes sdk: "sdk_initialized env"
    and proceeds: "\<not> truthy (secret_of (active_row (db_select env uid w)))"
    and conflict: "register_api env (length (calls w)) uid = Inl e" "already_exists e"
    and w2: "w2 = after_first_attempt env uid w"
    and stored: "stored = secret_of (data_of (db_select env uid w2))"
    and m: "m = uid @ ''_'' @ show_int (now env (db_step w2))"
    and w3: "w3 = log_call (RegisterCall m) (db_step w2)"
    and run: "registerSnapTradeUser env uid w = (res, w')"
  shows "\<exists>s. res = Inr \<lparr>userId = Some uid, userSecret = s\<rparr> \<and> s \<noteq> []
          \<and> length (calls w') \<le> length (calls w) + 2
          \<and> (\<not> db_fails env (Suc (db_ops w)) \<longrightarrow>
                store w2 uid = Some (placeholder_row (now env (db_step w))))
          \<and> (if truthy stored \<and> stored \<noteq> Some ''pending_registration''
              then stored = Some s \<and> calls w' = calls w @ [RegisterCall uid]
              else calls w' = calls w @ [RegisterCall uid, RegisterCall m]
                \<and> (case registered_secret (register_api env (Suc (length (calls w))) m) of
                      Some s1 \<Rightarrow>
                        s = s1
                        \<and> (\<forall>r0. store w2 uid = Some r0 \<and> \<not> db_fails env (db_ops w + 3) \<longrightarrow>
                              (\<exists>r1. store w' uid = Some r1
                                 \<and> api_secret_encrypted r1 = Some s
                                 \<and> map_of (broker_data r1) ''original_user_id'' = Some (JStr uid)
                                 \<and> map_of (broker_data r1) ''snap_trade_user_id'' = Some (JStr m)
                                 \<and> map_of (broker_data r1) ''registration_method''
                                     = Some (JStr ''modified_id'')))
                    | None \<Rightarrow>
                        s = ''fake_secret_'' @ show_int (now env w3)
                        \<and> (\<forall>r0. store w2 uid = Some r0 \<and> \<not> db_fails env (db_ops w + 3) \<longrightarrow>
                              (\<exists>r1. store w' uid = Some r1
                                 \<and> api_secret_encrypted r1 = Some s \<and> is_fake_secret r1
                                 \<and> map_of (broker_data r1) ''registration_method''
                                     = Some (JStr ''fallback'')))))"
proof -
  have mu: "m = modified_user_id env uid (db_step w2)"
    by (simp add: m modified_user_id_def)
  have r: "conflict_fallback env uid w2 = (res, w')"
    using register_conflict [OF sdk proceeds conflict] run w2 by simp
  have c2: "calls w2 = calls w @ [RegisterCall uid]" and o2: "db_ops w2 = db_ops w + 2"
    by (simp_all add: w2 after_first_attempt_def)
  have ph: "store w2 uid = Some (placeholder_row (now env (db_step w)))"
    if "\<not> db_fails env (Suc (db_ops w))"
    using that by (simp add: w2 after_first_attempt_def db_upsert_def)
  have c3: "calls w3 = calls w @ [RegisterCall uid, RegisterCall m]"
    and o3: "db_ops w3 = db_ops w + 3" and s3: "store w3 = store w2"
    by (simp_all add: w3 c2 o2)
  show ?thesis
  proof (cases "truthy stored \<and> stored \<noteq> Some ''pending_registration''")
    case True
    then obtain s where s: "stored = Some s" "s \<noteq> []" "s \<noteq> ''pending_registration''"
      by (auto simp: truthy_def split: option.splits)
    have "conflict_fallback env uid w2 = (Inr \<lparr>userId = Some uid, userSecret = s\<rparr>, db_step w2)"
      using s stored by (simp add: conflict_fallback_def)
    with r have "res = Inr \<lparr>userId = Some uid, userSecret = s\<rparr>" "w' = db_step w2" by simp_all
    then show ?thesis using True s c2 ph by simp
  next
    case False
    have cf: "conflict_fallback env uid w2 = modified_id_registration env uid (db_step w2)"
      using False stored by (auto simp: conflict_fallback_def truthy_def split: option.splits)
    show ?thesis
    proof (cases "registered_secret (register_api env (Suc (length (calls w))) m)")
      case None
      have "modified_id_registration env uid (db_step w2) = fake_secret_fallback env uid w3"
        using None by (simp add: modified_id_registration_def Let_def mu [symmetric] w3 [symmetric] c2)
      with r cf
      have res: "res = Inr \<lparr>userId = Some uid, userSecret = ''fake_secret_'' @ show_int (now env w3)\<rparr>"
        and w': "w' = db_update env uid
            (\<lambda>r. r\<lparr>api_secret_encrypted := Some (''fake_secret_'' @ show_int (now env w3)),
               broker_data := fallback_registration_data uid (now env w3)\<rparr>) w3"
        by (simp_all add: fake_secret_fallback_eq)
      have st: "store w' uid
          = Some (r0\<lparr>api_secret_encrypted := Some (''fake_secret_'' @ show_int (now env w3)),
               broker_data := fallback_registration_data uid (now env w3)\<rparr>)"
        if "store w2 uid = Some r0" "\<not> db_fails env (db_ops w + 3)" for r0
        using that by (simp add: w' store_db_update o3 s3)
      have cw: "calls w' = calls w @ [RegisterCall uid, RegisterCall m]" by (simp add: w' c3)
      show ?thesis using False None ph
        by (simp add: res cw st is_fake_secret_def fallback_registration_data_def)
    next
      case (Some s1)
      have ne: "s1 \<noteq> []" using Some by (rule registered_secret_nonempty)
      have "modified_id_registration env uid (db_step w2) =
          (Inr \<lparr>userId = Some uid, userSecret = s1\<rparr>,
           db_update env uid (\<lambda>r. r\<lparr>api_secret_encrypted := Some s1,
                        broker_data := modified_registration_data uid m (now env w3)\<rparr>) w3)"
        using Some by (simp add: modified_id_registration_def Let_def mu [symmetric] w3 [symmetric] c2)
      with r cf have res: "res = Inr \<lparr>userId = Some uid, userSecret = s1\<rparr>"
        and w': "w' = db_update env uid (\<lambda>r. r\<lparr>api_secret_encrypted := Some s1,
                        broker_data := modified_registration_data uid m (now env w3)\<rparr>) w3"
        by simp_all
      have st: "store w' uid = Some (r0\<lparr>api_secret_encrypted := Some s1,
                        broker_data := modified_registration_data uid m (now env w3)\<rparr>)"
        if "store w2 uid = Some r0" "\<not> db_fails env (db_ops w + 3)" for r0
        using that by (simp add: w' store_db_update o3 s3)
      have cw: "calls w' = calls w @ [RegisterCall uid, RegisterCall m]" by (simp add: w' c3)
      show ?thesis using False Some ne ph
        by (simp add: res cw st modified_registration_data_def)
    qed
  qed
qed

text \<open>
  The scenario of the specification: \<open>u1\<close> exists remotely and has no row; the
  modified id \<open>u1_1000\<close> is registered and the row of \<open>u1\<close> records
  \<open>original_user_id = u1\<close>.
\<close>

theorem register_conflict_fallback_chain_witness:
  "sdk_initialized conflict_env
   \<and> \<not> truthy (secret_of (active_row (db_select conflict_env ''u1'' empty_world)))
   \<and> register_api conflict_env (length (calls empty_world)) ''u1'' = Inl conflict_error
   \<and> already_exists conflict_error
   \<and> fst (registerSnapTradeUser conflict_env ''u1'' empty_world)
       = Inr \<lparr>userId = Some ''u1'', userSecret = ''secret-2''\<rparr>
   \<and> calls (snd (registerSnapTradeUser conflict_env ''u1'' empty_world))
       = [RegisterCall ''u1'', RegisterCall ''u1_1000'']
   \<and> (\<exists>r1. store (snd (registerSnapTradeUser conflict_env ''u1'' empty_world)) ''u1'' = Some r1
         \<and> api_secret_encrypted r1 = Some ''secret-2''
         \<and> map_of (broker_data r1) ''original_user_id'' = Some (JStr ''u1'')
         \<and> map_of (broker_data r1) ''registration_method'' = Some (JStr ''modified_id''))"
proof -
  let ?w2 = "after_first_attempt conflict_env ''u1'' empty_world"
  let ?m = "''u1'' @ ''_'' @ show_int (now conflict_env (db_step ?w2))"
  let ?R = "registerSnapTradeUser conflict_env ''u1'' empty_world"
  have h1: "sdk_initialized conflict_env" by code_simp
  have h2: "\<not> truthy (secret_of (active_row (db_select conflict_env ''u1'' empty_world)))"
    by code_simp
  have h3: "register_api conflict_env (length (calls empty_world)) ''u1'' = Inl conflict_error"
    by code_simp
  have h4: "already_exists conflict_error" by code_simp
  have st: "secret_of (data_of (db_select conflict_env ''u1'' ?w2)) = Some ''pending_registration''"
    by code_simp
  have mm: "?m = ''u1_1000''" by code_simp
  have rs: "registered_secret (register_api conflict_env (Suc (length (calls empty_world))) ?m)
              = Some ''secret-2''" by code_simp
  have row: "store ?w2 ''u1'' = Some (placeholder_row 1000)" by code_simp
  have ok: "\<not> db_fails conflict_env (db_ops empty_world + 3)" by code_simp
  have c0: "calls empty_world = []" by code_simp
  from register_conflict_fallback_chain [OF h1 h2 h3 h4 refl refl refl refl prod.collapse [symmetric]]
  obtain s where s: "fst ?R = Inr \<lparr>userId = Some ''u1'', userSecret = s\<rparr>"
    and chain: "if truthy (secret_of (data_of (db_select conflict_env ''u1'' ?w2)))
          \<and> secret_of (data_of (db_select conflict_env ''u1'' ?w2)) \<noteq> Some ''pending_registration''
        then secret_of (data_of (db_select conflict_env ''u1'' ?w2)) = Some s
          \<and> calls (snd ?R) = calls empty_world @ [RegisterCall ''u1'']
        else calls (snd ?R) = calls empty_world @ [RegisterCall ''u1'', RegisterCall ?m]
          \<and> (case registered_secret (register_api conflict_env (Suc (length (calls empty_world))) ?m) of
                Some s1 \<Rightarrow>
                  s = s1
                  \<and> (\<forall>r0. store ?w2 ''u1'' = Some r0 \<and> \<not> db_fails conflict_env (db_ops empty_world + 3) \<longrightarrow>
                        (\<exists>r1. store (snd ?R) ''u1'' = Some r1
                           \<and> api_secret_encrypted r1 = Some s
                           \<and> map_of (broker_data r1) ''original_user_id'' = Some (JStr ''u1'')
                           \<and> map_of (broker_data r1) ''snap_trade_user_id'' = Some (JStr ?m)
                           \<and> map_of (broker_data r1) ''registration_method'' = Some (JStr ''modified_id'')))
              | None \<Rightarrow>
                  s = ''fake_secret_'' @ show_int (now conflict_env (log_call (RegisterCall ?m) (db_step ?w2)))
                  \<and> (\<forall>r0. store ?w2 ''u1'' = Some r0 \<and> \<not> db_fails conflict_env (db_ops empty_world + 3) \<longrightarrow>
                        (\<exists>r1. store (snd ?R) ''u1'' = Some r1
                           \<and> api_secret_encrypted r1 = Some s \<and> is_fake_secret r1
                           \<and> map_of (broker_data r1) ''registration_method'' = Some (JStr ''fallback''))))"
    by blast
  note chain' = chain [unfolded st rs option.case simp_thms if_False]
  from chain' have b: "calls (snd ?R) = calls empty_world @ [RegisterCall ''u1'', RegisterCall ?m]"
    and sec: "s = ''secret-2''"
    and rowfact: "\<forall>r0. store ?w2 ''u1'' = Some r0 \<and> \<not> db_fails conflict_env (db_ops empty_world + 3) \<longrightarrow>
        (\<exists>r1. store (snd ?R) ''u1'' = Some r1
           \<and> api_secret_encrypted r1 = Some s
           \<and> map_of (broker_data r1) ''original_user_id'' = Some (JStr ''u1'')
           \<and> map_of (broker_data r1) ''snap_trade_user_id'' = Some (JStr ?m)
           \<and> map_of (broker_data r1) ''registration_method'' = Some (JStr ''modified_id''))"
    by blast+
  from rowfact row ok sec
  have r1: "\<exists>r1. store (snd ?R) ''u1'' = Some r1
         \<and> api_secret_encrypted r1 = Some ''secret-2''
         \<and> map_of (broker_data r1) ''original_user_id'' = Some (JStr ''u1'')
         \<and> map_of (broker_data r1) ''registration_method'' = Some (JStr ''modified_id'')"
    by blast
  have cl: "calls (snd ?R) = [RegisterCall ''u1'', RegisterCall ''u1_1000'']"
    using b by (simp only: mm c0 append_Nil)
  show ?thesis using h1 h2 h3 h4 s sec cl r1 by blast
qed

subsection \<open>Holdings: the loop over the accounts\<close>

lemma process_accounts_eq:
  "process_accounts env uid secret accs (hs, w) =
     (hs @ concat (map (account_holdings env uid secret) accs),
      w\<lparr>calls := calls w @ concat (map (account_calls env uid secret) accs)\<rparr>)"
  by (induction accs arbitrary: hs w) simp_all

lemma positions_to_holdings_accountId:
  "positions_to_holdings acc ps = Some hs \<Longrightarrow> h \<in> set hs \<Longrightarrow> accountId h = acc_id acc"
  by (induction ps arbitrary: hs) (auto simp: to_holding_def Let_def split: option.splits)

lemma balance_holdings_accountId:
  "h \<in> set (balance_holdings env uid secret acc) \<Longrightarrow> accountId h = acc_id acc"
  by (auto simp: balance_holdings_def cash_holdings_def cash_holding_def
      split: sum.splits option.splits)

lemma account_holdings_accountId:
  "h \<in> set (account_holdings env uid secret acc) \<Longrightarrow> accountId h = acc_id acc"
  by (auto simp: account_holdings_def pending_holding_def
      split: sum.splits option.splits if_splits
      dest: positions_to_holdings_accountId positions_to_holdings_accountId [OF sym]
        balance_holdings_accountId)

lemma filter_account_holdings_other:
  "acc_id b \<noteq> acc_id a \<Longrightarrow>
     filter (\<lambda>h. accountId h = acc_id a) (account_holdings env uid secret b) = []"
  by (auto simp: filter_empty_conv dest: account_holdings_accountId)

lemma filter_account_holdings_same:
  "filter (\<lambda>h. accountId h = acc_id a) (account_holdings env uid secret a)
     = account_holdings env uid secret a"
  by (auto simp: filter_id_conv dest: account_holdings_accountId)

lemma filter_concat_account:
  "distinct (map acc_id accs) \<Longrightarrow> a \<in> set accs \<Longrightarrow>
     filter (\<lambda>h. accountId h = acc_id a) (concat (map (account_holdings env uid secret) accs))
       = account_holdings env uid secret a"
proof (induction accs)
  case Nil
  then show ?case by simp
next
  case (Cons b accs)
  show ?case
  proof (cases "a = b")
    case True
    then have "acc_id a \<notin> acc_id ` set accs" using Cons.prems by simp
    then have "\<forall>c\<in>set accs. acc_id c \<noteq> acc_id a" by (metis imageI)
    then have "filter (\<lambda>h. accountId h = acc_id a)
                 (concat (map (account_holdings env uid secret) accs)) = []"
      by (induction accs) (simp_all add: filter_account_holdings_other)
    then show ?thesis using True by (simp add: filter_account_holdings_same)
  next
    case False
    then have "a \<in> set accs" and "acc_id b \<noteq> acc_id a" using Cons.prems by auto
    then show ?thesis using Cons by (simp add: filter_account_holdings_other)
  qed
qed

lemma positions_call_made:
  "a \<in> set accs \<Longrightarrow>
     PositionsCall uid secret (acc_id a) \<in> set (concat (map (account_calls env uid secret) accs))"
  by (induction accs) (auto simp: account_calls_def split: sum.splits option.splits)

lemma fetch_holdings_body_ok:
  assumes "getUserSecret env uid False w = (Inr secret, w1)"
    "accounts_api env (length (calls w1)) uid secret = Inr (Some accs)"
  shows "fetch_holdings_body env uid accountFilter w =
     (Inr (concat (map (account_holdings env uid secret) (accountsToProcess accountFilter accs))),
      w1\<lparr>calls := calls w1 @ ListAccountsCall uid secret
            # concat (map (account_calls env uid secret) (accountsToProcess accountFilter accs))\<rparr>)"
  using assms by (simp add: fetch_holdings_body_def Let_def process_accounts_eq log_call_def)

text \<open>
  C7. When the secret and the account list were obtained, the result of
  \<^verbatim>\<open>fetchSnapTradeHoldings\<close> is the concatenation, in the order of the accounts,
  of what each processed account contributes, and the contribution of an account
  depends on the answers for that account alone. For every processed account:
  its positions are requested, whatever happened to the accounts before it; with
  distinct account ids, the holdings of the result that carry its id are its
  own contribution; a positions failure contributes the one placeholder holding
  (symbol PENDING, \<open>isPending\<close>, the account's id) when it is "too early" (425)
  and nothing otherwise; a balances failure keeps the holdings of its positions.
\<close>

theorem fetch_holdings_isolates_accounts:
  assumes "sdk_initialized env" "getUserSecret env uid False w = (Inr secret, w1)"
    "accounts_api env (length (calls w1)) uid secret = Inr (Some accs)"
    "todo = accountsToProcess accountFilter accs"
    "fetchSnapTradeHoldings env uid accountFilter w = (res, w')"
  shows "res = Inr (concat (map (account_holdings env uid secret) todo))
     \<and> (\<forall>a\<in>set todo.
           PositionsCall uid secret (acc_id a) \<in> set (calls w')
         \<and> (distinct (map acc_id todo) \<longrightarrow>
              filter (\<lambda>h. accountId h = acc_id a) (concat (map (account_holdings env uid secret) todo))
                = account_holdings env uid secret a)
         \<and> (\<forall>e. positions_api env uid secret (acc_id a) = Inl e \<longrightarrow>
              account_holdings env uid secret a = (if too_early e then [pending_holding a] else []))
         \<and> (\<forall>ps hs e. positions_api env uid secret (acc_id a) = Inr (Some ps)
                \<and> positions_to_holdings a ps = Some hs
                \<and> balances_api env uid secret (acc_id a) = Inl e \<longrightarrow>
              account_holdings env uid secret a = hs)
         \<and> symbol (pending_holding a) = SymbolString ''PENDING'' \<and> isPending (pending_holding a)
         \<and> accountId (pending_holding a) = acc_id a)"
proof -
  have b: "fetch_holdings_body env uid accountFilter w =
     (Inr (concat (map (account_holdings env uid secret) todo)),
      w1\<lparr>calls := calls w1 @ ListAccountsCall uid secret
            # concat (map (account_calls env uid secret) todo)\<rparr>)"
    using fetch_holdings_body_ok [OF assms(2,3)] assms(4) by simp
  then have res: "res = Inr (concat (map (account_holdings env uid secret) todo))"
    and w': "w' = w1\<lparr>calls := calls w1 @ ListAccountsCall uid secret
            # concat (map (account_calls env uid secret) todo)\<rparr>"
    using assms(1,5) by (simp_all add: fetchSnapTradeHoldings_def)
  have calls: "PositionsCall uid secret (acc_id a) \<in> set (calls w')" if "a \<in> set todo" for a
    using positions_call_made [OF that, of uid secret env] by (simp add: w')
  have dist: "filter (\<lambda>h. accountId h = acc_id a) (concat (map (account_holdings env uid secret) todo))
                = account_holdings env uid secret a"
    if "a \<in> set todo" "distinct (map acc_id todo)" for a
    using that by (simp add: filter_concat_account)
  have early: "account_holdings env uid secret a = (if too_early e then [pending_holding a] else [])"
    if "positions_api env uid secret (acc_id a) = Inl e" for a e
    using that by (simp add: account_holdings_def)
  have bal: "account_holdings env uid secret a = hs"
    if "positions_api env uid secret (acc_id a) = Inr (Some ps)" "positions_to_holdings a ps = Some hs"
       "balances_api env uid secret (acc_id a) = Inl e" for a ps hs e
    using that by (simp add: account_holdings_def balance_holdings_def)
  show ?thesis
    using res calls dist early bal by (simp add: pending_holding_def)
qed

text \<open>
  The scenario of the specification: of two accounts the first answers 425;
  the result is the placeholder of the first and the holding of the second.
\<close>

theorem fetch_holdings_isolates_accounts_witness:
  "sdk_initialized two_accounts_env
   \<and> fst (getUserSecret two_accounts_env ''u1'' False linked_world) = Inr ''real-secret''
   \<and> positions_api two_accounts_env ''u1'' ''real-secret'' (acc_id example_account) = Inl too_early_error
   \<and> too_early too_early_error
   \<and> distinct (map acc_id [example_account, second_account])
   \<and> fst (fetchSnapTradeHoldings two_accounts_env ''u1'' None linked_world)
       = Inr [pending_holding example_account,
              to_holding second_account apple_position (SymbolObject (Some ''AAPL'') (Some ''Apple Inc.''))]
   \<and> filter (\<lambda>h. accountId h = acc_id example_account)
        (concat (map (account_holdings two_accounts_env ''u1'' ''real-secret'')
                   [example_account, second_account]))
       = [pending_holding example_account]
   \<and> PositionsCall ''u1'' ''real-secret'' (acc_id second_account)
       \<in> set (calls (snd (fetchSnapTradeHoldings two_accounts_env ''u1'' None linked_world)))"
proof -
  let ?G = "getUserSecret two_accounts_env ''u1'' False linked_world"
  let ?F = "fetchSnapTradeHoldings two_accounts_env ''u1'' None linked_world"
  let ?todo = "[example_account, second_account]"
  have h1: "sdk_initialized two_accounts_env" by code_simp
  have g: "fst ?G = Inr ''real-secret''" by code_simp
  then have h2: "?G = (Inr ''real-secret'', snd ?G)" by (simp add: prod_eq_iff)
  have h3: "accounts_api two_accounts_env (length (calls (snd ?G))) ''u1'' ''real-secret''
              = Inr (Some ?todo)"
    by (simp add: two_accounts_env_def)
  have h4: "?todo = accountsToProcess None ?todo" by (simp add: accountsToProcess_def)
  have p: "positions_api two_accounts_env ''u1'' ''real-secret'' (acc_id example_account)
             = Inl too_early_error" by code_simp
  have t: "too_early too_early_error" by code_simp
  have d: "distinct (map acc_id ?todo)" by code_simp
  have f: "fst ?F = Inr [pending_holding example_account,
              to_holding second_account apple_position (SymbolObject (Some ''AAPL'') (Some ''Apple Inc.''))]"
    by code_simp
  note inst = fetch_holdings_isolates_accounts [OF h1 h2 h3 h4 prod.collapse [symmetric]]
  from inst have all: "\<forall>a\<in>set ?todo.
           PositionsCall ''u1'' ''real-secret'' (acc_id a) \<in> set (calls (snd ?F))
         \<and> (distinct (map acc_id ?todo) \<longrightarrow>
              filter (\<lambda>h. accountId h = acc_id a)
                (concat (map (account_holdings two_accounts_env ''u1'' ''real-secret'') ?todo))
                = account_holdings two_accounts_env ''u1'' ''real-secret'' a)
         \<and> (\<forall>e. positions_api two_accounts_env ''u1'' ''real-secret'' (acc_id a) = Inl e \<longrightarrow>
              account_holdings two_accounts_env ''u1'' ''real-secret'' a
                = (if too_early e then [pending_holding a] else []))"
    by blast
  have m1: "example_account \<in> set ?todo" and m2: "second_account \<in> set ?todo" by simp_all
  from all m2 have c: "PositionsCall ''u1'' ''real-secret'' (acc_id second_account) \<in> set (calls (snd ?F))"
    by blast
  from all m1 d
  have f1: "filter (\<lambda>h. accountId h = acc_id example_account)
          (concat (map (account_holdings two_accounts_env ''u1'' ''real-secret'') ?todo))
        = account_holdings two_accounts_env ''u1'' ''real-secret'' example_account"
    by blast
  from all m1 p
  have f2: "account_holdings two_accounts_env ''u1'' ''real-secret'' example_account
        = (if too_early too_early_error then [pending_holding example_account] else [])"
    by blast
  from f1 f2 t
  have "filter (\<lambda>h. accountId h = acc_id example_account)
          (concat (map (account_holdings two_accounts_env ''u1'' ''real-secret'') ?todo))
        = [pending_holding example_account]"
    by simp
  with h1 g p t d f c show ?thesis by blast
qed

lemma fetch_holdings_returns_list:
  "sdk_initialized env \<Longrightarrow> \<exists>hs. fst (fetchSnapTradeHoldings env uid accountFilter w) = Inr hs"
  by (simp add: fetchSnapTradeHoldings_def split: prod.splits sum.splits)

lemma fetch_holdings_sentinel:
  "sdk_initialized env \<Longrightarrow> fst (fetch_holdings_body env uid accountFilter w) = Inl e \<Longrightarrow>
     fst (fetchSnapTradeHoldings env uid accountFilter w) = Inr [error_holding (err_message e)]"
  by (cases "fetch_holdings_body env uid accountFilter w") (simp add: fetchSnapTradeHoldings_def)

lemma fetch_holdings_body_cases:
  "getUserSecret env uid False w = (Inr secret, w1) \<Longrightarrow>
     (case accounts_api env (length (calls w1)) uid secret of
        Inl e \<Rightarrow> fst (fetch_holdings_body env uid accountFilter w) = Inl e
      | Inr None \<Rightarrow>
          fst (fetch_holdings_body env uid accountFilter w) = Inl (new_Error ''Failed to fetch accounts'')
      | Inr (Some accs) \<Rightarrow> (\<exists>hs. fst (fetch_holdings_body env uid accountFilter w) = Inr hs))"
  by (simp add: fetch_holdings_body_def Let_def split: sum.splits option.splits prod.splits)

text \<open>
  C6, as the code has it. When the SDK client is initialised,
  \<^verbatim>\<open>fetchSnapTradeHoldings\<close> returns a list and does not throw: a failure of the
  \<^verbatim>\<open>try\<close> block (the secret cannot be read, the account list fails or has no
  data) gives the list of exactly one sentinel holding, with symbol ERROR,
  \<open>isError\<close> and the message of the error. When the client is not initialised,
  the function throws \<^verbatim>\<open>Error("SnapTrade SDK not initialized")\<close>: that test stands
  before the \<^verbatim>\<open>try\<close>.
\<close>

theorem fetch_holdings_never_throws_when_initialized:
  "(if sdk_initialized env
    then (\<exists>hs. fst (fetchSnapTradeHoldings env uid accountFilter w) = Inr hs)
       \<and> (\<forall>e. fst (fetch_holdings_body env uid accountFilter w) = Inl e \<longrightarrow>
             fst (fetchSnapTradeHoldings env uid accountFilter w) = Inr [error_holding (err_message e)])
       \<and> (db_fails env (db_ops w) \<longrightarrow>
             fst (fetchSnapTradeHoldings env uid accountFilter w)
               = Inr [error_holding ''Database error when retrieving user secret''])
       \<and> (\<forall>secret w1. getUserSecret env uid False w = (Inr secret, w1) \<longrightarrow>
             (case accounts_api env (length (calls w1)) uid secret of
                Inl e \<Rightarrow> fst (fetchSnapTradeHoldings env uid accountFilter w)
                           = Inr [error_holding (err_message e)]
              | Inr None \<Rightarrow> fst (fetchSnapTradeHoldings env uid accountFilter w)
                              = Inr [error_holding ''Failed to fetch accounts'']
              | Inr (Some accs) \<Rightarrow> (\<exists>hs. fst (fetch_holdings_body env uid accountFilter w) = Inr hs)))
    else fst (fetchSnapTradeHoldings env uid accountFilter w)
           = Inl (new_Error ''SnapTrade SDK not initialized''))
   \<and> symbol (error_holding msg) = SymbolString ''ERROR'' \<and> isError (error_holding msg)
   \<and> errorMessage (error_holding msg) = Some msg"
proof -
  have c: "fst (fetch_holdings_body env uid accountFilter w)
             = Inl (new_Error ''Database error when retrieving user secret'')"
    if "db_fails env (db_ops w)"
    using that by (simp add: fetch_holdings_body_def getUserSecret_def db_select_def)
  have e: "err_message (new_Error m) = m" for m by (simp add: new_Error_def)
  show ?thesis
  proof (cases "sdk_initialized env")
    case True
    note b = fetch_holdings_sentinel [OF True]
    have d': "(case accounts_api env (length (calls w1)) uid secret of
                Inl e \<Rightarrow> fst (fetchSnapTradeHoldings env uid accountFilter w)
                           = Inr [error_holding (err_message e)]
              | Inr None \<Rightarrow> fst (fetchSnapTradeHoldings env uid accountFilter w)
                              = Inr [error_holding ''Failed to fetch accounts'']
              | Inr (Some accs) \<Rightarrow> (\<exists>hs. fst (fetch_holdings_body env uid accountFilter w) = Inr hs))"
      if "getUserSecret env uid False w = (Inr secret, w1)" for secret w1
      using fetch_holdings_body_cases [OF that, of accountFilter] b e
      by (auto split: sum.splits option.splits)
    show ?thesis
      using True fetch_holdings_returns_list [OF True] b b [OF c] d'
      by (simp add: error_holding_def e)
  next
    case False
    then show ?thesis by (simp add: fetchSnapTradeHoldings_def error_holding_def)
  qed
qed

theorem fetch_holdings_never_throws_when_initialized_witness:
  "sdk_initialized accounts_down_env
   \<and> fst (getUserSecret accounts_down_env ''u1'' False linked_world) = Inr ''real-secret''
   \<and> fst (fetchSnapTradeHoldings accounts_down_env ''u1'' None linked_world)
       = Inr [error_holding ''Request failed with status code 500'']"
proof -
  let ?G = "getUserSecret accounts_down_env ''u1'' False linked_world"
  let ?F = "fetchSnapTradeHoldings accounts_down_env ''u1'' None linked_world"
  have h1: "sdk_initialized accounts_down_env" by code_simp
  have g: "fst ?G = Inr ''real-secret''" by code_simp
  then have h2: "?G = (Inr ''real-secret'', snd ?G)" by (simp add: prod_eq_iff)
  have a: "accounts_api accounts_down_env (length (calls (snd ?G))) ''u1'' ''real-secret''
             = Inl (new_Error ''Request failed with status code 500'')"
    by (simp add: accounts_down_env_def)
  have e: "err_message (new_Error ''Request failed with status code 500'')
             = ''Request failed with status code 500''" by code_simp
  from fetch_holdings_never_throws_when_initialized [of accounts_down_env "''u1''" None linked_world] h1
  have "\<forall>secret w1. ?G = (Inr secret, w1) \<longrightarrow>
             (case accounts_api accounts_down_env (length (calls w1)) ''u1'' secret of
                Inl e \<Rightarrow> fst ?F = Inr [error_holding (err_message e)]
              | Inr None \<Rightarrow> fst ?F = Inr [error_holding ''Failed to fetch accounts'']
              | Inr (Some accs) \<Rightarrow>
                  (\<exists>hs. fst (fetch_holdings_body accounts_down_env ''u1'' None linked_world) = Inr hs))"
    by simp
  with h2 have "case accounts_api accounts_down_env (length (calls (snd ?G))) ''u1'' ''real-secret'' of
                Inl e \<Rightarrow> fst ?F = Inr [error_holding (err_message e)]
              | Inr None \<Rightarrow> fst ?F = Inr [error_holding ''Failed to fetch accounts'']
              | Inr (Some accs) \<Rightarrow>
                  (\<exists>hs. fst (fetch_holdings_body accounts_down_env ''u1'' None linked_world) = Inr hs)"
    by blast
  then have "fst ?F = Inr [error_holding ''Request failed with status code 500'']"
    by (simp only: a e sum.case)
  with h1 g show ?thesis by blast
qed

text \<open>
  The claim as the specification states it ("never throws") fails for a
  deployment without the two credential variables.
\<close>

theorem fetch_holdings_uninitialized_counterexample:
  "fst (fetchSnapTradeHoldings uninitialized_env ''u1'' None linked_world)
     = Inl (new_Error ''SnapTrade SDK not initialized'')"
  by code_simp

subsection \<open>createSnapTradeUserLink: the re-entry after a registration\<close>

lemma has_active_secret_db_step [simp]: "has_active_secret (db_step w) uid = has_active_secret w uid"
  by (simp add: has_active_secret_def)

lemma has_active_secret_log_call [simp]: "has_active_secret (log_call c w) uid = has_active_secret w uid"
  by (simp add: has_active_secret_def)

lemma has_active_secret_upsert:
  "\<not> db_fails env (db_ops w) \<Longrightarrow> is_active r \<Longrightarrow> truthy (api_secret_encrypted r) \<Longrightarrow>
     has_active_secret (db_upsert env uid r w) uid"
  by (simp add: has_active_secret_def db_upsert_def)

lemma has_active_secret_update:
  "has_active_secret w uid \<Longrightarrow> s \<noteq> [] \<Longrightarrow>
     has_active_secret (db_update env uid (\<lambda>r. r\<lparr>api_secret_encrypted := Some s, broker_data := bd\<rparr>) w) uid"
  by (auto simp: has_active_secret_def db_update_def truthy_def split: option.splits)

lemma modified_id_registration_active:
  "has_active_secret w uid \<Longrightarrow> modified_id_registration env uid w = (r, w') \<Longrightarrow> has_active_secret w' uid"
  by (auto simp: modified_id_registration_def Let_def fake_secret_fallback_eq
      split: option.splits intro!: has_active_secret_update dest: registered_secret_nonempty)

lemma conflict_fallback_active:
  "has_active_secret w uid \<Longrightarrow> conflict_fallback env uid w = (r, w') \<Longrightarrow> has_active_secret w' uid"
  by (auto simp: conflict_fallback_def split: option.splits if_splits
      dest: modified_id_registration_active [rotated])

lemma direct_registration_active:
  assumes "\<not> db_fails env (db_ops w)" "direct_registration env uid w = (Inr res, w')"
  shows "has_active_secret w' uid"
proof -
  let ?w1 = "db_upsert env uid (placeholder_row (now env w)) w"
  let ?w2 = "log_call (RegisterCall uid) ?w1"
  have a: "has_active_secret ?w2 uid"
    using assms(1) by (simp add: has_active_secret_upsert placeholder_row_def truthy_def)
  have oe: "has_active_secret w' uid" if "on_register_error env uid e ?w2 = (Inr res, w')" for e
    using that a by (auto simp: on_register_error_def split: if_splits dest: conflict_fallback_active [rotated])
  show ?thesis
    using assms(2) a oe
    by (auto simp: direct_registration_def Let_def split: sum.splits option.splits
        intro!: has_active_secret_update dest: registered_secret_nonempty)
qed

lemma register_active:
  assumes "\<forall>k. \<not> db_fails env k" "registerSnapTradeUser env uid w = (Inr res, w')"
  shows "has_active_secret w' uid"
  using assms direct_registration_active [of env "db_step w" uid res w']
  by (auto simp: registerSnapTradeUser_def db_select_def active_row_def data_of_def secret_of_def
      has_active_secret_def truthy_def split: option.splits if_splits)

lemma register_failure_needs_no_secret:
  assumes "sdk_initialized env" "\<not> db_fails env (db_ops w)" "has_active_secret w uid"
  shows "\<exists>res. registerSnapTradeUser env uid w = (Inr res, db_step w)"
  using assms
  by (auto simp: registerSnapTradeUser_def db_select_def active_row_def data_of_def secret_of_def
      has_active_secret_def truthy_def split: option.splits if_splits)

lemma valid_credentials_active:
  "valid_credentials (store w uid) = Some s \<Longrightarrow> has_active_secret w uid"
  by (auto simp: valid_credentials_def has_active_secret_def truthy_def split: option.splits if_splits)

lemma getUserSecret_active:
  assumes ok: "\<forall>k. \<not> db_fails env k" and sdk: "sdk_initialized env"
    and run: "getUserSecret env uid f w = (r, w')"
  shows "has_active_secret w' uid"
proof (cases "cached_secret (store w uid) f (now env (db_step w))")
  case (Some s)
  then have "valid_credentials (store w uid) = Some s"
    by (auto simp: cached_secret_def split: option.splits if_splits)
  then have "has_active_secret w uid" by (rule valid_credentials_active)
  moreover have "w' = db_step w" using run Some ok by (simp add: getUserSecret_def db_select_def)
  ultimately show ?thesis by simp
next
  case None
  with run ok obtain s0 where rf: "register_or_fallback env uid (store w uid) (db_step w) = (s0, w')"
    by (auto simp: getUserSecret_def db_select_def split: prod.splits)
  show ?thesis
  proof (cases "registerSnapTradeUser env uid (db_step w)")
    case (Pair rr w1)
    show ?thesis
    proof (cases rr)
      case (Inr res)
      then have "w' = w1" using rf Pair by (simp add: register_or_fallback_def)
      then show ?thesis using register_active [OF ok] Pair Inr by blast
    next
      case (Inl e)
      have nv: "valid_credentials (store w uid) = None"
      proof (rule ccontr)
        assume "valid_credentials (store w uid) \<noteq> None"
        then obtain s where "valid_credentials (store w uid) = Some s" by blast
        then have "has_active_secret (db_step w) uid" by (simp add: valid_credentials_active)
        then obtain res where "registerSnapTradeUser env uid (db_step w) = (Inr res, db_step (db_step w))"
          using register_failure_needs_no_secret [OF sdk, of "db_step w" uid] ok by blast
        then show False using Pair Inl by simp
      qed
      have "w' = db_upsert env uid (emergency_row s0 e (now env w1)) w1 \<and> s0 \<noteq> []"
        using rf Pair Inl nv by (auto simp: register_or_fallback_def Let_def)
      then show ?thesis using ok
        by (simp add: has_active_secret_upsert emergency_row_def truthy_def)
    qed
  qed
qed

lemma link_attempt_unregistered:
  assumes "\<forall>k. \<not> db_fails env k" "sdk_initialized env"
    "\<forall>k r. \<exists>e. login_api env k r = Inl e \<and> err_message e = ''User not registered with SnapTrade''"
  shows "\<exists>e w1. link_attempt env uid redirectUri brokerId w = (Inl e, w1)
      \<and> err_message e = ''User not registered with SnapTrade'' \<and> has_active_secret w1 uid"
proof -
  from assms(1) obtain s w1 where g: "getUserSecret env uid False w = (Inr s, w1)"
    using getUserSecret_returns by blast
  have a: "has_active_secret w1 uid" using getUserSecret_active [OF assms(1,2) g] .
  from assms(3) obtain e where
    "login_api env (length (calls w1)) (login_request_of uid s redirectUri brokerId) = Inl e"
    "err_message e = ''User not registered with SnapTrade''" by blast
  then show ?thesis using g a by (simp add: link_attempt_def Let_def)
qed

lemma link_never_returns:
  assumes "sdk_initialized env" "\<forall>k. \<not> db_fails env k"
    "\<forall>k r. \<exists>e. login_api env k r = Inl e \<and> err_message e = ''User not registered with SnapTrade''"
  shows "createSnapTradeUserLink n env uid redirectUri brokerId w = None"
proof (induction n arbitrary: w)
  case 0
  show ?case by simp
next
  case (Suc n)
  obtain e w1 where la: "link_attempt env uid redirectUri brokerId w = (Inl e, w1)"
    "err_message e = ''User not registered with SnapTrade''" "has_active_secret w1 uid"
    using link_attempt_unregistered [OF assms(2,1,3)] by blast
  obtain res where rg: "registerSnapTradeUser env uid w1 = (Inr res, db_step w1)"
    using register_failure_needs_no_secret [OF assms(1) _ la(3)] assms(2) by blast
  show ?case using assms(1) la rg Suc.IH by simp
qed

text \<open>
  C8, as the code has it. An entry of \<^verbatim>\<open>createSnapTradeUserLink\<close> whose attempt
  succeeds, or fails for another reason than "User not registered with
  SnapTrade", returns without calling itself. An entry whose attempt fails with
  that message calls \<^verbatim>\<open>registerSnapTradeUser\<close> once and, when the registration
  returns, calls itself once with the same arguments; when the registration
  fails with status 400 and the deletion and re-creation of the remote user
  stores a new secret, it calls itself once as well. Nothing counts these
  re-entries, so their number has no bound: while the table answers,
  \<^verbatim>\<open>getUserSecret\<close> leaves an active row with a secret, the registration
  returns that secret without a remote call, and with a login endpoint that
  keeps answering "not registered" no number of entries is enough for the
  function to return.
\<close>

theorem link_reentry_unbounded:
  "(sdk_initialized env \<and> link_attempt env uid redirectUri brokerId w = (Inr url, w1) \<longrightarrow>
      createSnapTradeUserLink (Suc n) env uid redirectUri brokerId w = Some (Inr url, w1))
   \<and> (sdk_initialized env \<and> link_attempt env uid redirectUri brokerId w = (Inl e, w1)
      \<and> err_message e \<noteq> ''User not registered with SnapTrade'' \<longrightarrow>
      createSnapTradeUserLink (Suc n) env uid redirectUri brokerId w = Some (Inl (link_failure e), w1))
   \<and> (sdk_initialized env \<and> link_attempt env uid redirectUri brokerId w = (Inl e, w1)
      \<and> err_message e = ''User not registered with SnapTrade''
      \<and> registerSnapTradeUser env uid w1 = (Inr registrationResult, w2) \<longrightarrow>
      createSnapTradeUserLink (Suc n) env uid redirectUri brokerId w
        = createSnapTradeUserLink n env uid redirectUri brokerId w2)
   \<and> (sdk_initialized env \<and> link_attempt env uid redirectUri brokerId w = (Inl e, w1)
      \<and> err_message e = ''User not registered with SnapTrade''
      \<and> registerSnapTradeUser env uid w1 = (Inl regError, w2) \<and> has_status_400 regError
      \<and> recreate_user env uid w2 = (True, w3) \<longrightarrow>
      createSnapTradeUserLink (Suc n) env uid redirectUri brokerId w
        = createSnapTradeUserLink n env uid redirectUri brokerId w3)
   \<and> (sdk_initialized env \<and> (\<forall>k. \<not> db_fails env k)
      \<and> (\<forall>k r. \<exists>e. login_api env k r = Inl e \<and> err_message e = ''User not registered with SnapTrade'')
      \<longrightarrow> createSnapTradeUserLink n env uid redirectUri brokerId w = None)"
  using link_never_returns [of env n uid redirectUri brokerId w] by simp

theorem link_reentry_unbounded_witness:
  "sdk_initialized never_registered_env \<and> (\<forall>k. \<not> db_fails never_registered_env k)
   \<and> (\<forall>k r. \<exists>e. login_api never_registered_env k r = Inl e
         \<and> err_message e = ''User not registered with SnapTrade'')
   \<and> fst (link_attempt never_registered_env ''u1'' ''https://app/cb'' None empty_world)
       = Inl (new_Error ''User not registered with SnapTrade'')
   \<and> createSnapTradeUserLink 5 never_registered_env ''u1'' ''https://app/cb'' None empty_world = None"
proof -
  have h1: "sdk_initialized never_registered_env" by code_simp
  have h2: "\<forall>k. \<not> db_fails never_registered_env k"
    by (simp add: never_registered_env_def healthy_env_def)
  have h3: "\<forall>k r. \<exists>e. login_api never_registered_env k r = Inl e
         \<and> err_message e = ''User not registered with SnapTrade''"
    by (simp add: never_registered_env_def new_Error_def)
  have h5: "fst (link_attempt never_registered_env ''u1'' ''https://app/cb'' None empty_world)
       = Inl (new_Error ''User not registered with SnapTrade'')" by code_simp
  from link_reentry_unbounded [where env = never_registered_env and uid = "''u1''"
      and redirectUri = "''https://app/cb''" and brokerId = None and w = empty_world and n = 5]
    h1 h2 h3
  have "createSnapTradeUserLink 5 never_registered_env ''u1'' ''https://app/cb'' None empty_world = None"
    by blast
  with h1 h2 h3 h5 show ?thesis by blast
qed

text \<open>
  The claim as the specification states it ("retries at most once") fails: when
  the login endpoint answers "not registered" twice and then gives the link, two
  entries of the function are not enough, and the third returns the link after
  three login calls.
\<close>

theorem link_retries_twice_counterexample:
  "createSnapTradeUserLink (Suc (Suc 0)) twice_unregistered_env ''u1'' ''https://app/cb'' None empty_world
     = None
   \<and> map_option fst
       (createSnapTradeUserLink (Suc (Suc (Suc 0))) twice_unregistered_env ''u1'' ''https://app/cb'' None
          empty_world)
     = Some (Inr ''https://portal/login'')
   \<and> login_calls
       (createSnapTradeUserLink (Suc (Suc (Suc 0))) twice_unregistered_env ''u1'' ''https://app/cb'' None
          empty_world)
     = 3"
  by code_simp

subsection \<open>createSnapTradeUserLink: the broker parameter\<close>








subsection \<open>The metadata after a login link\<close>






subsection \<open>Holdings of a position\<close>




end
